theory Spec2Isabelle
  imports Main "HOL-Library.Word"
begin

section \<open>Pooled CoAP messages and sessions of go-coap\<close>

text \<open>
  A shallow embedding of the pooled message of the datagram framing (package
  \<^verbatim>\<open>udp/message/pool\<close>), of the pooled message of the stream framing (package
  \<^verbatim>\<open>tcp/message/pool\<close>), of the two message pools, and of the DTLS and UDP sessions.
  A method with a pointer receiver takes the receiver's value and returns the updated one.
  Names of the stream framing carry the suffix \<open>_tcp\<close>, names of the two sessions the
  suffixes \<open>_dtls\<close> and \<open>_udp\<close>; the datagram message keeps the source's names.
\<close>

subsection \<open>Basic data\<close>

type_synonym bytes = "8 word list"

text \<open>A Go panic, with its message.\<close>

datatype panic = Panic string

text \<open>
  A Go error value: one made directly, or one wrapping another with a prefix, as
  \<^verbatim>\<open>fmt.Errorf("prefix: %w", err)\<close> does.
\<close>

datatype error = Err string | Wrapf string error

text \<open>
  A Go byte slice: its elements (\<^verbatim>\<open>len\<close> of them) and its capacity.
  \<^verbatim>\<open>make([]byte, n)\<close> has \<open>n\<close> zero bytes and capacity \<open>n\<close>.
\<close>

record slice =
  elems :: bytes
  cap :: nat

definition make_slice :: "nat \<Rightarrow> slice" where
  "make_slice n = \<lparr>elems = replicate n 0, cap = n\<rparr>"

text \<open>
  The contexts of Go's standard library, as far as the sessions and the pools use them: a
  context is the background, a cancellable child of a parent (numbered by its cancel
  function), or a child carrying a key and a value. A context is done when its own cancel
  function has been called or an ancestor is done.
\<close>

datatype Context = Background | cancelCtx nat Context | valueCtx string string Context

fun ctxDone :: "nat set \<Rightarrow> Context \<Rightarrow> bool" where
  "ctxDone cs Background = False"
| "ctxDone cs (cancelCtx i parent) = (i \<in> cs \<or> ctxDone cs parent)"
| "ctxDone cs (valueCtx k v parent) = ctxDone cs parent"

subsection \<open>The embedded message container\<close>

text \<open>
  Modelled from the spec: the numeric message code and its constant \<^verbatim>\<open>codes.Empty\<close>
  (package \<^verbatim>\<open>message/codes\<close>) are declared outside the files at hand. The code is
  numeric and the empty code is 0 (CoAP's 0.00).
\<close>

type_synonym Code = nat

definition codes_Empty :: Code where
  "codes_Empty = 0"

text \<open>
  Modelled from the spec: the message type \<^verbatim>\<open>udp.Type\<close> and its constants (package
  \<^verbatim>\<open>udp/message\<close>) are declared outside the files at hand. The type is one of
  Confirmable, NonConfirmable, Acknowledgement and Reset, a 2-bit field of the datagram
  header held in an unsigned byte; CoAP numbers the four 0, 1, 2 and 3. The zero value
  of the Go type is therefore Confirmable.
\<close>

type_synonym udp_Type = "8 word"

definition udp_Confirmable :: udp_Type where
  "udp_Confirmable = 0"

definition udp_NonConfirmable :: udp_Type where
  "udp_NonConfirmable = 1"

definition udp_Acknowledgement :: udp_Type where
  "udp_Acknowledgement = 2"

definition udp_Reset :: udp_Type where
  "udp_Reset = 3"

text \<open>
  Modelled from the spec: the generic container \<^verbatim>\<open>pool.Message\<close> (package
  \<^verbatim>\<open>message/pool\<close>) that both pooled messages embed is outside the files at hand.
  It holds a code, a token that may be absent, an ordered option list (number and value),
  a body that may be absent, and a dirty flag of its own. \<^verbatim>\<open>NewMessage\<close> makes an empty
  container; \<^verbatim>\<open>Reset\<close> restores it to empty and clears its dirty flag; the getters read
  the fields.
\<close>

record pool_Message =
  code :: Code
  token :: "bytes option"
  options :: "(nat \<times> bytes) list"
  body :: "bytes option"
  modified :: bool

definition pool_NewMessage :: pool_Message where
  "pool_NewMessage = \<lparr>code = codes_Empty, token = None, options = [], body = None, modified = False\<rparr>"

definition pool_Reset :: "pool_Message \<Rightarrow> pool_Message" where
  "pool_Reset m = pool_NewMessage"

definition pool_IsModified :: "pool_Message \<Rightarrow> bool" where
  "pool_IsModified m = modified m"

definition pool_SetModified :: "bool \<Rightarrow> pool_Message \<Rightarrow> pool_Message" where
  "pool_SetModified b m = m\<lparr>modified := b\<rparr>"

subsection \<open>The pooled message of the datagram framing\<close>

definition maxMessagePool :: int where
  "maxMessagePool = 10240"

definition maxMessageBufferSize :: nat where
  "maxMessageBufferSize = 2048"

text \<open>
  \<^verbatim>\<open>messageID *uint16\<close> is a pointer that may be nil: \<open>None\<close> is the unset ID.
  \<^verbatim>\<open>ctx\<close> is an interface value that may be nil. The field \<^verbatim>\<open>typ\<close> is \<open>typ_udp\<close> here.
\<close>

record Message =
  base :: pool_Message
  messageID :: "16 word option"
  typ_udp :: udp_Type
  rawData :: slice
  rawMarshalData :: slice
  ctx :: "Context option"
  isModified :: bool

definition Reset :: "Message \<Rightarrow> Message" where
  "Reset r =
     (let r = r\<lparr>base := pool_Reset (base r)\<rparr>;
          r = r\<lparr>messageID := None\<rparr>;
          r = r\<lparr>typ_udp := udp_NonConfirmable\<rparr>;
          r = (if cap (rawData r) > maxMessageBufferSize then r\<lparr>rawData := make_slice 256\<rparr> else r);
          r = (if cap (rawMarshalData r) > maxMessageBufferSize
               then r\<lparr>rawMarshalData := make_slice 256\<rparr> else r)
      in r\<lparr>isModified := False\<rparr>)"

definition SetMessageID :: "16 word \<Rightarrow> Message \<Rightarrow> Message" where
  "SetMessageID mid r = r\<lparr>messageID := Some mid, isModified := True\<rparr>"

text \<open>\<^verbatim>\<open>UpsertMessageID\<close> returns its result and the message as it leaves it.\<close>

definition UpsertMessageID :: "16 word \<Rightarrow> Message \<Rightarrow> 16 word \<times> Message" where
  "UpsertMessageID mid r =
     (case messageID r of
        Some v \<Rightarrow> (v, r)
      | None \<Rightarrow> (mid, r\<lparr>messageID := Some mid\<rparr>))"

definition MessageID :: "Message \<Rightarrow> panic + 16 word" where
  "MessageID r =
     (case messageID r of
        None \<Rightarrow> Inl (Panic ''messageID is not set'')
      | Some v \<Rightarrow> Inr v)"

definition SetType :: "udp_Type \<Rightarrow> Message \<Rightarrow> Message" where
  "SetType t r = r\<lparr>typ_udp := t, isModified := True\<rparr>"

definition Type :: "Message \<Rightarrow> udp_Type" where
  "Type r = typ_udp r"

definition IsModified :: "Message \<Rightarrow> bool" where
  "IsModified r = (isModified r \<or> pool_IsModified (base r))"

definition SetModified :: "bool \<Rightarrow> Message \<Rightarrow> Message" where
  "SetModified b r = r\<lparr>isModified := b, base := pool_SetModified b (base r)\<rparr>"

text \<open>The getters promoted from the embedded container.\<close>

definition Code :: "Message \<Rightarrow> Code" where
  "Code r = code (base r)"

definition Token :: "Message \<Rightarrow> bytes option" where
  "Token r = token (base r)"

definition Options :: "Message \<Rightarrow> (nat \<times> bytes) list" where
  "Options r = options (base r)"

definition Body :: "Message \<Rightarrow> bytes option" where
  "Body r = body (base r)"

definition IsSeparate :: "Message \<Rightarrow> bool" where
  "IsSeparate r =
     (Code r = codes_Empty \<and> Token r = None \<and> Type r = udp_Acknowledgement
      \<and> length (Options r) = 0 \<and> Body r = None)"

subsection \<open>The pool of datagram messages\<close>

text \<open>
  \<^verbatim>\<open>atomic.AddInt32\<close> on the 32-bit signed counter, with the wrap-around written out.
\<close>

definition AddInt32 :: "int \<Rightarrow> int \<Rightarrow> int" where
  "AddInt32 c d = (c + d + 2 ^ 31) mod 2 ^ 32 - 2 ^ 31"

text \<open>
  Go's \<^verbatim>\<open>sync.Pool\<close>, as its documentation describes it: \<^verbatim>\<open>Put\<close> adds an item;
  \<^verbatim>\<open>Get\<close> removes an arbitrary item and returns it, or treats the pool as empty and
  returns nil; an item may be dropped at any time. The choice of \<^verbatim>\<open>Get\<close> is an argument:
  \<open>None\<close> for nil, \<open>Some i\<close> for the item at position \<open>i\<close> (nil when there is none).
\<close>

definition sync_Get :: "nat option \<Rightarrow> 'a list \<Rightarrow> 'a option \<times> 'a list" where
  "sync_Get choice xs =
     (case choice of
        None \<Rightarrow> (None, xs)
      | Some i \<Rightarrow> if i < length xs then (Some (xs ! i), take i xs @ drop (Suc i) xs)
                  else (None, xs))"

definition sync_Put :: "'a \<Rightarrow> 'a list \<Rightarrow> 'a list" where
  "sync_Put x xs = x # xs"

definition sync_drop :: "nat \<Rightarrow> 'a list \<Rightarrow> 'a list" where
  "sync_drop i xs = take i xs @ drop (Suc i) xs"

text \<open>The package's two global variables.\<close>

record Pool =
  currentMessagesInPool :: int
  messagePool :: "Message list"

definition emptyPool :: Pool where
  "emptyPool = \<lparr>currentMessagesInPool = 0, messagePool = []\<rparr>"

definition AcquireMessage :: "nat option \<Rightarrow> Context option \<Rightarrow> Pool \<Rightarrow> Message \<times> Pool" where
  "AcquireMessage choice c p =
     (case sync_Get choice (messagePool p) of
        (None, rest) \<Rightarrow>
          (\<lparr>base = pool_NewMessage, messageID = None, typ_udp = 0, rawData = make_slice 256,
            rawMarshalData = make_slice 256, ctx = c, isModified = False\<rparr>, p)
      | (Some r, rest) \<Rightarrow>
          (r\<lparr>ctx := c\<rparr>,
           p\<lparr>currentMessagesInPool := AddInt32 (currentMessagesInPool p) (- 1),
             messagePool := rest\<rparr>))"

text \<open>
  \<^verbatim>\<open>ReleaseMessage\<close> returns the instance as the call leaves it, and the pool. On the
  retained path the pool holds that same instance.
\<close>

definition ReleaseMessage :: "Message \<Rightarrow> Pool \<Rightarrow> Message \<times> Pool" where
  "ReleaseMessage req p =
     (let v = currentMessagesInPool p in
      if v \<ge> maxMessagePool then (req, p)
      else
        (let p = p\<lparr>currentMessagesInPool := AddInt32 (currentMessagesInPool p) 1\<rparr>;
             req = Reset req;
             req = req\<lparr>ctx := None\<rparr>
         in (req, p\<lparr>messagePool := sync_Put req (messagePool p)\<rparr>)))"

text \<open>
  A sequential run of the pool: calls of \<^verbatim>\<open>AcquireMessage\<close> and \<^verbatim>\<open>ReleaseMessage\<close>,
  and the moments at which \<^verbatim>\<open>sync.Pool\<close> drops an item by itself.
\<close>

datatype pool_op = Acquire "nat option" "Context option" | Release Message | Drop nat

fun pool_step :: "pool_op \<Rightarrow> Pool \<Rightarrow> Pool" where
  "pool_step (Acquire choice c) p = snd (AcquireMessage choice c p)"
| "pool_step (Release req) p = snd (ReleaseMessage req p)"
| "pool_step (Drop i) p = p\<lparr>messagePool := sync_drop i (messagePool p)\<rparr>"

fun pool_run :: "pool_op list \<Rightarrow> Pool \<Rightarrow> Pool" where
  "pool_run [] p = p"
| "pool_run (x # xs) p = pool_run xs (pool_step x p)"

subsection \<open>The pooled message of the stream framing and its pool\<close>

record Message_tcp =
  base_tcp :: pool_Message
  rawData_tcp :: slice
  rawMarshalData_tcp :: slice
  ctx_tcp :: "Context option"
  isModified_tcp :: bool

definition Reset_tcp :: "Message_tcp \<Rightarrow> Message_tcp" where
  "Reset_tcp r =
     (let r = r\<lparr>base_tcp := pool_Reset (base_tcp r)\<rparr>;
          r = (if cap (rawData_tcp r) > maxMessageBufferSize
               then r\<lparr>rawData_tcp := make_slice 256\<rparr> else r);
          r = (if cap (rawMarshalData_tcp r) > maxMessageBufferSize
               then r\<lparr>rawMarshalData_tcp := make_slice 256\<rparr> else r)
      in r\<lparr>isModified_tcp := False\<rparr>)"

definition IsModified_tcp :: "Message_tcp \<Rightarrow> bool" where
  "IsModified_tcp r = (isModified_tcp r \<or> pool_IsModified (base_tcp r))"

record Pool_tcp =
  currentMessagesInPool_tcp :: int
  messagePool_tcp :: "Message_tcp list"

definition emptyPool_tcp :: Pool_tcp where
  "emptyPool_tcp = \<lparr>currentMessagesInPool_tcp = 0, messagePool_tcp = []\<rparr>"

definition AcquireMessage_tcp ::
  "nat option \<Rightarrow> Context option \<Rightarrow> Pool_tcp \<Rightarrow> Message_tcp \<times> Pool_tcp" where
  "AcquireMessage_tcp choice c p =
     (case sync_Get choice (messagePool_tcp p) of
        (None, rest) \<Rightarrow>
          (\<lparr>base_tcp = pool_NewMessage, rawData_tcp = make_slice 256, rawMarshalData_tcp = make_slice 256,
            ctx_tcp = c, isModified_tcp = False\<rparr>, p)
      | (Some r, rest) \<Rightarrow>
          (r\<lparr>ctx_tcp := c\<rparr>,
           p\<lparr>currentMessagesInPool_tcp := AddInt32 (currentMessagesInPool_tcp p) (- 1),
             messagePool_tcp := rest\<rparr>))"

definition ReleaseMessage_tcp :: "Message_tcp \<Rightarrow> Pool_tcp \<Rightarrow> Message_tcp \<times> Pool_tcp" where
  "ReleaseMessage_tcp req p =
     (let v = currentMessagesInPool_tcp p in
      if v \<ge> maxMessagePool then (req, p)
      else
        (let p = p\<lparr>currentMessagesInPool_tcp := AddInt32 (currentMessagesInPool_tcp p) 1\<rparr>;
             req = Reset_tcp req;
             req = req\<lparr>ctx_tcp := None\<rparr>
         in (req, p\<lparr>messagePool_tcp := sync_Put req (messagePool_tcp p)\<rparr>)))"

datatype pool_op_tcp =
  Acquire_tcp "nat option" "Context option" | Release_tcp Message_tcp | Drop_tcp nat

fun pool_step_tcp :: "pool_op_tcp \<Rightarrow> Pool_tcp \<Rightarrow> Pool_tcp" where
  "pool_step_tcp (Acquire_tcp choice c) p = snd (AcquireMessage_tcp choice c p)"
| "pool_step_tcp (Release_tcp req) p = snd (ReleaseMessage_tcp req p)"
| "pool_step_tcp (Drop_tcp i) p = p\<lparr>messagePool_tcp := sync_drop i (messagePool_tcp p)\<rparr>"

fun pool_run_tcp :: "pool_op_tcp list \<Rightarrow> Pool_tcp \<Rightarrow> Pool_tcp" where
  "pool_run_tcp [] p = p"
| "pool_run_tcp (x # xs) p = pool_run_tcp xs (pool_step_tcp x p)"

section \<open>Sessions\<close>

subsection \<open>The world around a session\<close>

text \<open>
  A close-hook (\<^verbatim>\<open>EventFunc = func()\<close>) is opaque code; it stands here as a number. Calling
  it leaves an entry in the log of effects, together with what the hook would see
  if it looked at the session's \<^verbatim>\<open>Done()\<close> channel at that moment: closed or not.
  Closing the transport connection leaves an entry too.
\<close>

type_synonym EventFunc = nat

datatype event = Hook EventFunc bool | ConnClosed

text \<open>
  The state outside the session's struct: how many cancellable contexts exist, which
  cancel functions have been called, and the log of effects in the order they happened.
\<close>

record World =
  ctxCount :: nat
  cancelled :: "nat set"
  effects :: "event list"

text \<open>
  \<^verbatim>\<open>context.WithCancel(parent)\<close> returns a new child of \<open>parent\<close> and its cancel function.
  Calling a cancel function again does nothing more.
\<close>

definition WithCancel :: "Context \<Rightarrow> World \<Rightarrow> (Context \<times> nat) \<times> World" where
  "WithCancel parent w = ((cancelCtx (ctxCount w) parent, ctxCount w), w\<lparr>ctxCount := Suc (ctxCount w)\<rparr>)"

definition cancelFunc :: "nat \<Rightarrow> World \<Rightarrow> World" where
  "cancelFunc i w = w\<lparr>cancelled := insert i (cancelled w)\<rparr>"

text \<open>
  The transport connection, an external collaborator: what its successive calls of
  \<^verbatim>\<open>ReadWithContext\<close> return (an error, or the bytes read, \<^verbatim>\<open>buf[:n]\<close>), and what its
  \<^verbatim>\<open>Close\<close> returns. The upstream processor \<^verbatim>\<open>cc\<close> is external as well: what its
  \<open>i\<close>-th call of \<^verbatim>\<open>Process\<close> returns on the bytes given.
\<close>

record Conn =
  readResults :: "nat \<Rightarrow> error + bytes"
  closeResult :: "error option"

type_synonym ClientConn = "nat \<Rightarrow> bytes \<Rightarrow> error option"

definition Conn_Close :: "Conn \<Rightarrow> World \<Rightarrow> error option \<times> World" where
  "Conn_Close c w = (closeResult c, w\<lparr>effects := effects w @ [ConnClosed]\<rparr>)"

subsection \<open>The DTLS session\<close>

text \<open>\<^verbatim>\<open>done\<close> is a channel; the field says whether it has been closed.\<close>

record Session_dtls =
  connection_dtls :: Conn
  maxMessageSize_dtls :: int
  closeSocket_dtls :: bool
  onClose_dtls :: "EventFunc list"
  cancel_dtls :: nat
  ctx_dtls :: Context
  done_dtls :: bool

definition NewSession_dtls ::
  "Context \<Rightarrow> Conn \<Rightarrow> int \<Rightarrow> bool \<Rightarrow> World \<Rightarrow> Session_dtls \<times> World" where
  "NewSession_dtls c connection maxMessageSize closeSocket w =
     (case WithCancel c w of
        ((c, cancel), w) \<Rightarrow>
          (\<lparr>connection_dtls = connection, maxMessageSize_dtls = maxMessageSize,
            closeSocket_dtls = closeSocket, onClose_dtls = [], cancel_dtls = cancel,
            ctx_dtls = c, done_dtls = False\<rparr>, w))"

text \<open>Whether the channel that \<^verbatim>\<open>Done()\<close> returns is closed.\<close>

definition Done_dtls :: "Session_dtls \<Rightarrow> bool" where
  "Done_dtls s = done_dtls s"

definition AddOnClose_dtls :: "EventFunc \<Rightarrow> Session_dtls \<Rightarrow> Session_dtls" where
  "AddOnClose_dtls f s = s\<lparr>onClose_dtls := onClose_dtls s @ [f]\<rparr>"

definition popOnClose_dtls :: "Session_dtls \<Rightarrow> EventFunc list \<times> Session_dtls" where
  "popOnClose_dtls s = (let tmp = onClose_dtls s in (tmp, s\<lparr>onClose_dtls := []\<rparr>))"

text \<open>The loop \<^verbatim>\<open>for _, f := range ... { f() }\<close> of \<^verbatim>\<open>close\<close>.\<close>

fun callHooks_dtls :: "EventFunc list \<Rightarrow> Session_dtls \<Rightarrow> World \<Rightarrow> World" where
  "callHooks_dtls [] s w = w"
| "callHooks_dtls (f # fs) s w =
     callHooks_dtls fs s (w\<lparr>effects := effects w @ [Hook f (Done_dtls s)]\<rparr>)"

text \<open>
  \<^verbatim>\<open>close\<close>: the deferred \<^verbatim>\<open>close(s.done)\<close> runs last, and panics on a channel that is
  closed already.
\<close>

definition close_dtls ::
  "Session_dtls \<Rightarrow> World \<Rightarrow> (panic + error option) \<times> Session_dtls \<times> World" where
  "close_dtls s w =
     (case popOnClose_dtls s of
        (tmp, s) \<Rightarrow>
          (let w = callHooks_dtls tmp s w;
               (ret, w) = (if closeSocket_dtls s then Conn_Close (connection_dtls s) w
                           else (None, w))
           in if done_dtls s then (Inl (Panic ''close of closed channel''), s, w)
              else (Inr ret, s\<lparr>done_dtls := True\<rparr>, w)))"

definition Close_dtls :: "Session_dtls \<Rightarrow> World \<Rightarrow> error option \<times> World" where
  "Close_dtls s w = (None, cancelFunc (cancel_dtls s) w)"

definition Context_dtls :: "Session_dtls \<Rightarrow> Context" where
  "Context_dtls s = ctx_dtls s"

definition SetContextValue_dtls :: "string \<Rightarrow> string \<Rightarrow> Session_dtls \<Rightarrow> Session_dtls" where
  "SetContextValue_dtls key val s = s\<lparr>ctx_dtls := valueCtx key val (Context_dtls s)\<rparr>"

text \<open>
  The read loop of \<^verbatim>\<open>Run\<close>, from its \<open>i\<close>-th iteration on. It may run forever: the
  result \<open>None\<close> is the loop that never leaves. \<^verbatim>\<open>readBuf[:readLen]\<close> panics when the
  transport reports more bytes than the buffer holds.
\<close>

partial_function (option) readLoop_dtls ::
  "Conn \<Rightarrow> ClientConn \<Rightarrow> int \<Rightarrow> nat \<Rightarrow> (panic + error) option" where
  "readLoop_dtls c cc sz i =
     (case readResults c i of
        Inl err \<Rightarrow> Some (Inr (Wrapf ''cannot read from connection: '' err))
      | Inr readBuf \<Rightarrow>
          if int (length readBuf) > sz then Some (Inl (Panic ''slice bounds out of range''))
          else (case cc i readBuf of
                  Some err \<Rightarrow> Some (Inr err)
                | None \<Rightarrow> readLoop_dtls c cc sz (Suc i)))"

text \<open>
  The deferred function of \<^verbatim>\<open>Run\<close>, given the value the named result \<^verbatim>\<open>err\<close> has when
  the body leaves. A panic of \<^verbatim>\<open>close\<close> goes on through \<^verbatim>\<open>Run\<close>.
\<close>

definition Run_deferred_dtls ::
  "error option \<Rightarrow> Session_dtls \<Rightarrow> World \<Rightarrow> (panic + error option) \<times> Session_dtls \<times> World" where
  "Run_deferred_dtls err s w =
     (case Close_dtls s w of
        (err1, w) \<Rightarrow>
          (let err = (if err = None then err1 else err) in
           case close_dtls s w of
             (Inl p, s, w) \<Rightarrow> (Inl p, s, w)
           | (Inr err1, s, w) \<Rightarrow> (Inr (if err = None then err1 else err), s, w)))"

text \<open>
  A panic in the body of \<^verbatim>\<open>Run\<close> still runs the deferred function, with the named result
  nil, and goes on afterwards.
\<close>

definition Run_panicking_dtls ::
  "panic \<Rightarrow> Session_dtls \<Rightarrow> World \<Rightarrow> (panic + error option) \<times> Session_dtls \<times> World" where
  "Run_panicking_dtls p s w =
     (case Run_deferred_dtls None s w of
        (Inl p', s, w) \<Rightarrow> (Inl p', s, w)
      | (Inr err, s, w) \<Rightarrow> (Inl p, s, w))"

definition Run_dtls ::
  "Session_dtls \<Rightarrow> ClientConn \<Rightarrow> World
     \<Rightarrow> ((panic + error option) \<times> Session_dtls \<times> World) option" where
  "Run_dtls s cc w =
     (if maxMessageSize_dtls s < 0
      then Some (Run_panicking_dtls (Panic ''makeslice: len out of range'') s w)
      else
        (case readLoop_dtls (connection_dtls s) cc (maxMessageSize_dtls s) 0 of
           None \<Rightarrow> None
         | Some (Inl p) \<Rightarrow> Some (Run_panicking_dtls p s w)
         | Some (Inr err) \<Rightarrow> Some (Run_deferred_dtls (Some err) s w)))"

subsection \<open>The UDP session\<close>

record Session_udp =
  connection_udp :: Conn
  raddr_udp :: string
  maxMessageSize_udp :: int
  closeSocket_udp :: bool
  onClose_udp :: "EventFunc list"
  cancel_udp :: nat
  ctx_udp :: Context
  doneCtx_udp :: Context
  doneCancel_udp :: nat

text \<open>
  \<^verbatim>\<open>NewSession\<close> assigns the cancellable child of \<^verbatim>\<open>ctx\<close> to \<^verbatim>\<open>ctx\<close>, and then
  \<^verbatim>\<open>context.WithCancel(ctx)\<close> to \<^verbatim>\<open>doneCtx\<close>: the parameter \<^verbatim>\<open>doneCtx\<close> is overwritten
  before it is read.
\<close>

definition NewSession_udp ::
  "Context \<Rightarrow> Conn \<Rightarrow> string \<Rightarrow> int \<Rightarrow> bool \<Rightarrow> Context \<Rightarrow> World \<Rightarrow> Session_udp \<times> World" where
  "NewSession_udp c connection raddr maxMessageSize closeSocket doneCtx w =
     (case WithCancel c w of
        ((c, cancel), w) \<Rightarrow>
          (case WithCancel c w of
             ((doneCtx, doneCancel), w) \<Rightarrow>
               (\<lparr>connection_udp = connection, raddr_udp = raddr,
                 maxMessageSize_udp = maxMessageSize, closeSocket_udp = closeSocket,
                 onClose_udp = [], cancel_udp = cancel, ctx_udp = c,
                 doneCtx_udp = doneCtx, doneCancel_udp = doneCancel\<rparr>, w)))"

text \<open>Whether the channel that \<^verbatim>\<open>Done()\<close> returns, \<^verbatim>\<open>s.doneCtx.Done()\<close>, is closed.\<close>

definition Done_udp :: "Session_udp \<Rightarrow> World \<Rightarrow> bool" where
  "Done_udp s w = ctxDone (cancelled w) (doneCtx_udp s)"

definition AddOnClose_udp :: "EventFunc \<Rightarrow> Session_udp \<Rightarrow> Session_udp" where
  "AddOnClose_udp f s = s\<lparr>onClose_udp := onClose_udp s @ [f]\<rparr>"

definition popOnClose_udp :: "Session_udp \<Rightarrow> EventFunc list \<times> Session_udp" where
  "popOnClose_udp s = (let tmp = onClose_udp s in (tmp, s\<lparr>onClose_udp := []\<rparr>))"

fun callHooks_udp :: "EventFunc list \<Rightarrow> Session_udp \<Rightarrow> World \<Rightarrow> World" where
  "callHooks_udp [] s w = w"
| "callHooks_udp (f # fs) s w =
     callHooks_udp fs s (w\<lparr>effects := effects w @ [Hook f (Done_udp s w)]\<rparr>)"

text \<open>\<^verbatim>\<open>close\<close>: the deferred \<^verbatim>\<open>s.doneCancel()\<close> runs last.\<close>

definition close_udp :: "Session_udp \<Rightarrow> World \<Rightarrow> error option \<times> Session_udp \<times> World" where
  "close_udp s w =
     (case popOnClose_udp s of
        (tmp, s) \<Rightarrow>
          (let w = callHooks_udp tmp s w;
               (ret, w) = (if closeSocket_udp s then Conn_Close (connection_udp s) w
                           else (None, w))
           in (ret, s, cancelFunc (doneCancel_udp s) w)))"

definition Close_udp :: "Session_udp \<Rightarrow> World \<Rightarrow> error option \<times> World" where
  "Close_udp s w = (None, cancelFunc (cancel_udp s) w)"

definition Context_udp :: "Session_udp \<Rightarrow> Context" where
  "Context_udp s = ctx_udp s"

definition SetContextValue_udp :: "string \<Rightarrow> string \<Rightarrow> Session_udp \<Rightarrow> Session_udp" where
  "SetContextValue_udp key val s = s\<lparr>ctx_udp := valueCtx key val (Context_udp s)\<rparr>"

partial_function (option) readLoop_udp ::
  "Conn \<Rightarrow> ClientConn \<Rightarrow> int \<Rightarrow> nat \<Rightarrow> (panic + error) option" where
  "readLoop_udp c cc sz i =
     (case readResults c i of
        Inl err \<Rightarrow> Some (Inr err)
      | Inr buf \<Rightarrow>
          if int (length buf) > sz then Some (Inl (Panic ''slice bounds out of range''))
          else (case cc i buf of
                  Some err \<Rightarrow> Some (Inr err)
                | None \<Rightarrow> readLoop_udp c cc sz (Suc i)))"

definition Run_deferred_udp ::
  "error option \<Rightarrow> Session_udp \<Rightarrow> World \<Rightarrow> error option \<times> Session_udp \<times> World" where
  "Run_deferred_udp err s w =
     (case Close_udp s w of
        (err1, w) \<Rightarrow>
          (let err = (if err = None then err1 else err) in
           case close_udp s w of
             (err1, s, w) \<Rightarrow> (if err = None then err1 else err, s, w)))"

definition Run_panicking_udp ::
  "panic \<Rightarrow> Session_udp \<Rightarrow> World \<Rightarrow> (panic + error option) \<times> Session_udp \<times> World" where
  "Run_panicking_udp p s w =
     (case Run_deferred_udp None s w of (err, s, w) \<Rightarrow> (Inl p, s, w))"

definition Run_udp ::
  "Session_udp \<Rightarrow> ClientConn \<Rightarrow> World
     \<Rightarrow> ((panic + error option) \<times> Session_udp \<times> World) option" where
  "Run_udp s cc w =
     (if maxMessageSize_udp s < 0
      then Some (Run_panicking_udp (Panic ''makeslice: len out of range'') s w)
      else
        (case readLoop_udp (connection_udp s) cc (maxMessageSize_udp s) 0 of
           None \<Rightarrow> None
         | Some (Inl p) \<Rightarrow> Some (Run_panicking_udp p s w)
         | Some (Inr err) \<Rightarrow>
             (case Run_deferred_udp (Some err) s w of
                (err, s, w) \<Rightarrow> Some (Inr err, s, w))))"

section \<open>Predicates used in the statements\<close>

text \<open>
  What every instance held by the pool looks like: no message-ID, and neither dirty flag
  set.
\<close>

definition pool_clean :: "Message \<Rightarrow> bool" where
  "pool_clean m = (messageID m = None \<and> \<not> isModified m \<and> \<not> modified (base m))"

text \<open>
  The invariant of either pool: the counter is at least the number of instances the pool
  holds and at most the cap.
\<close>

definition pool_inv :: "Pool \<Rightarrow> bool" where
  "pool_inv p = (int (length (messagePool p)) \<le> currentMessagesInPool p
                 \<and> currentMessagesInPool p \<le> maxMessagePool)"

definition pool_inv_tcp :: "Pool_tcp \<Rightarrow> bool" where
  "pool_inv_tcp p = (int (length (messagePool_tcp p)) \<le> currentMessagesInPool_tcp p
                     \<and> currentMessagesInPool_tcp p \<le> maxMessagePool)"

text \<open>
  Iteration \<open>i\<close> of the read loop goes through: the read returns bytes that fit the
  buffer and the processor accepts them.
\<close>

definition stepOk :: "Conn \<Rightarrow> ClientConn \<Rightarrow> int \<Rightarrow> nat \<Rightarrow> bool" where
  "stepOk c cc sz i =
     (case readResults c i of
        Inl err \<Rightarrow> False
      | Inr buf \<Rightarrow> int (length buf) \<le> sz \<and> cc i buf = None)"

fun okBefore :: "Conn \<Rightarrow> ClientConn \<Rightarrow> int \<Rightarrow> nat \<Rightarrow> bool" where
  "okBefore c cc sz 0 = True"
| "okBefore c cc sz (Suc k) = (okBefore c cc sz k \<and> stepOk c cc sz k)"

text \<open>
  How the read loop is left: by an error of the transport read, or by an error of the
  processor. \<open>failsAt c cc sz k f\<close>: the iterations before \<open>k\<close> go through, and iteration
  \<open>k\<close> fails as \<open>f\<close> says.
\<close>

datatype failure = ReadFailed error | ProcessFailed error

definition failsAt :: "Conn \<Rightarrow> ClientConn \<Rightarrow> int \<Rightarrow> nat \<Rightarrow> failure \<Rightarrow> bool" where
  "failsAt c cc sz k f =
     (okBefore c cc sz k \<and>
      (case f of
         ReadFailed e \<Rightarrow> readResults c k = Inl e
       | ProcessFailed e \<Rightarrow>
           (case readResults c k of
              Inl err \<Rightarrow> False
            | Inr buf \<Rightarrow> int (length buf) \<le> sz \<and> cc k buf = Some e)))"

text \<open>
  Concrete surroundings for the examples: the world before any context exists; a
  transport whose every read fails; a transport whose every read returns three bytes and
  whose \<^verbatim>\<open>Close\<close> fails; a processor that accepts everything; a processor that rejects
  the second unit it is given.
\<close>

definition world0 :: World where
  "world0 = \<lparr>ctxCount = 0, cancelled = {}, effects = []\<rparr>"

definition conn_read_fails :: Conn where
  "conn_read_fails = \<lparr>readResults = (\<lambda>i. Inl (Err ''EOF'')), closeResult = None\<rparr>"

definition conn_reads :: Conn where
  "conn_reads = \<lparr>readResults = (\<lambda>i. Inr [1, 2, 3]), closeResult = Some (Err ''close failed'')\<rparr>"

definition cc_accepts :: ClientConn where
  "cc_accepts i buf = None"

definition cc_rejects_second :: ClientConn where
  "cc_rejects_second i buf = (if i = 1 then Some (Err ''bad message'') else None)"

section \<open>Properties of the pooled datagram message\<close>

subsection \<open>What the pool holds\<close>

lemma freshMessage:
  "fst (AcquireMessage None c emptyPool) =
     \<lparr>base = pool_NewMessage, messageID = None, typ_udp = 0, rawData = make_slice 256,
      rawMarshalData = make_slice 256, ctx = c, isModified = False\<rparr>"
  by (simp add: AcquireMessage_def sync_Get_def emptyPool_def)

lemma Reset_clean: "pool_clean ((Reset r)\<lparr>ctx := c\<rparr>)"
  by (simp add: pool_clean_def Reset_def Let_def pool_Reset_def pool_NewMessage_def)

lemma sync_Get_subset:
  "sync_Get choice xs = (Some x, rest) \<Longrightarrow> x \<in> set xs \<and> set rest \<subseteq> set xs"
  by (auto simp: sync_Get_def split: option.splits if_splits dest: in_set_takeD in_set_dropD)

lemma sync_drop_subset: "set (sync_drop i xs) \<subseteq> set xs"
  by (auto simp: sync_drop_def dest: in_set_takeD in_set_dropD)

lemma pool_step_clean:
  assumes h: "\<forall>m \<in> set (messagePool p). pool_clean m"
  shows "\<forall>m \<in> set (messagePool (pool_step x p)). pool_clean m"
proof (cases x)
  case (Acquire choice c)
  show ?thesis
  proof (cases "sync_Get choice (messagePool p)")
    case (Pair a rest)
    show ?thesis
    proof (cases a)
      case None
      with Pair Acquire h show ?thesis by (simp add: AcquireMessage_def)
    next
      case (Some r)
      with Pair have "set rest \<subseteq> set (messagePool p)" using sync_Get_subset by fastforce
      with Pair Some Acquire h show ?thesis by (auto simp: AcquireMessage_def)
    qed
  qed
next
  case (Release req)
  with h show ?thesis
    by (auto simp: ReleaseMessage_def Let_def sync_Put_def Reset_clean)
next
  case (Drop i)
  with h show ?thesis using sync_drop_subset [of i "messagePool p"] by auto
qed

lemma pool_run_clean:
  "\<forall>m \<in> set (messagePool p). pool_clean m
   \<Longrightarrow> \<forall>m \<in> set (messagePool (pool_run xs p)). pool_clean m"
proof (induction xs arbitrary: p)
  case Nil
  then show ?case by simp
next
  case (Cons x xs)
  then show ?case using pool_step_clean [of p x] by simp
qed

lemma acquire_clean:
  assumes "\<forall>m \<in> set (messagePool p). pool_clean m"
  shows "messageID (fst (AcquireMessage choice c p)) = None
         \<and> \<not> IsModified (fst (AcquireMessage choice c p))"
proof (cases "sync_Get choice (messagePool p)")
  case (Pair a rest)
  show ?thesis
  proof (cases a)
    case None
    with Pair show ?thesis
      by (simp add: AcquireMessage_def IsModified_def pool_IsModified_def pool_NewMessage_def)
  next
    case (Some r)
    with Pair have "r \<in> set (messagePool p)" using sync_Get_subset by fastforce
    with assms have "pool_clean r" by blast
    with Pair Some show ?thesis
      by (simp add: AcquireMessage_def IsModified_def pool_IsModified_def pool_clean_def)
  qed
qed

lemma acquire_run_clean:
  "messageID (fst (AcquireMessage choice c (pool_run ops emptyPool))) = None
   \<and> \<not> IsModified (fst (AcquireMessage choice c (pool_run ops emptyPool)))"
  by (rule acquire_clean, rule pool_run_clean) (simp add: emptyPool_def)

subsection \<open>Reading and assigning the message-ID\<close>

text \<open>
  C1: \<^verbatim>\<open>MessageID()\<close> panics on every message whose message-ID is unset, and that is the
  case after \<^verbatim>\<open>Reset\<close> and for the message \<^verbatim>\<open>AcquireMessage\<close> returns after any sequential
  run of the pool, new or recycled; on a message whose ID is set, and after
  \<^verbatim>\<open>SetMessageID\<close>, it returns exactly that ID.
\<close>

theorem MessageID_unset_panics:
  "(messageID r = None \<longrightarrow> MessageID r = Inl (Panic ''messageID is not set''))
   \<and> MessageID (Reset r) = Inl (Panic ''messageID is not set'')
   \<and> MessageID (fst (AcquireMessage choice c (pool_run ops emptyPool)))
       = Inl (Panic ''messageID is not set'')
   \<and> (messageID r = Some v \<longrightarrow> MessageID r = Inr v)
   \<and> MessageID (SetMessageID mid r) = Inr mid"
proof -
  have "MessageID (Reset r) = Inl (Panic ''messageID is not set'')"
    by (simp add: MessageID_def Reset_def Let_def)
  moreover have "MessageID (fst (AcquireMessage choice c (pool_run ops emptyPool)))
       = Inl (Panic ''messageID is not set'')"
    using acquire_run_clean [of choice c ops] by (simp add: MessageID_def)
  ultimately show ?thesis by (simp add: MessageID_def SetMessageID_def)
qed

theorem MessageID_unset_panics_witness:
  "messageID (fst (AcquireMessage None None emptyPool)) = None
   \<and> MessageID (fst (AcquireMessage None None emptyPool)) = Inl (Panic ''messageID is not set'')
   \<and> MessageID (Reset (SetMessageID 7 (fst (AcquireMessage None None emptyPool))))
       = Inl (Panic ''messageID is not set'')
   \<and> messageID (SetMessageID 7 (fst (AcquireMessage None None emptyPool))) = Some 7
   \<and> MessageID (SetMessageID 7 (fst (AcquireMessage None None emptyPool))) = Inr 7"
proof -
  have a: "messageID (fst (AcquireMessage None None emptyPool)) = None"
    by (simp add: freshMessage)
  have b: "messageID (SetMessageID 7 (fst (AcquireMessage None None emptyPool))) = Some 7"
    by (simp add: SetMessageID_def)
  from a b
    MessageID_unset_panics [of "fst (AcquireMessage None None emptyPool)" None None "[]" 7 7]
    MessageID_unset_panics [of "SetMessageID 7 (fst (AcquireMessage None None emptyPool))"
      None None "[]" 7 7]
  show ?thesis by blast
qed

text \<open>
  C8: \<^verbatim>\<open>UpsertMessageID(mid)\<close> returns the ID already assigned and leaves the message as
  it is when one is set; otherwise it assigns \<open>mid\<close> and returns \<open>mid\<close>. In both cases
  \<^verbatim>\<open>MessageID()\<close> on the message afterwards does not panic and returns the value
  \<^verbatim>\<open>UpsertMessageID\<close> returned.
\<close>

theorem UpsertMessageID_effective:
  "(messageID r = Some v \<longrightarrow> UpsertMessageID mid r = (v, r))
   \<and> (messageID r = None \<longrightarrow> UpsertMessageID mid r = (mid, r\<lparr>messageID := Some mid\<rparr>))
   \<and> MessageID (snd (UpsertMessageID mid r)) = Inr (fst (UpsertMessageID mid r))"
  by (cases "messageID r") (simp_all add: UpsertMessageID_def MessageID_def)

theorem UpsertMessageID_effective_witness:
  "messageID (SetMessageID 7 (fst (AcquireMessage None None emptyPool))) = Some 7
   \<and> UpsertMessageID 9 (SetMessageID 7 (fst (AcquireMessage None None emptyPool)))
     = (7, SetMessageID 7 (fst (AcquireMessage None None emptyPool)))
   \<and> messageID (fst (AcquireMessage None None emptyPool)) = None
   \<and> UpsertMessageID 9 (fst (AcquireMessage None None emptyPool))
     = (9, (fst (AcquireMessage None None emptyPool))\<lparr>messageID := Some 9\<rparr>)
   \<and> MessageID (snd (UpsertMessageID 9 (fst (AcquireMessage None None emptyPool))))
     = Inr (fst (UpsertMessageID 9 (fst (AcquireMessage None None emptyPool))))"
proof -
  have a: "messageID (fst (AcquireMessage None None emptyPool)) = None"
    by (simp add: freshMessage)
  have b: "messageID (SetMessageID 7 (fst (AcquireMessage None None emptyPool))) = Some 7"
    by (simp add: SetMessageID_def)
  from a b
    UpsertMessageID_effective [of "SetMessageID 7 (fst (AcquireMessage None None emptyPool))" 7 9]
    UpsertMessageID_effective [of "fst (AcquireMessage None None emptyPool)" 7 9]
  show ?thesis by blast
qed

text \<open>
  C10: \<^verbatim>\<open>UpsertMessageID\<close> leaves the message's own dirty flag, and so \<^verbatim>\<open>IsModified()\<close>,
  as it was, also when it assigns the ID; \<^verbatim>\<open>SetMessageID\<close> always sets the flag. So a
  message fresh from \<^verbatim>\<open>Reset\<close>, or fresh from \<^verbatim>\<open>AcquireMessage\<close> after any sequential run of
  the pool, gets its ID assigned by \<^verbatim>\<open>UpsertMessageID\<close> and still reports
  \<^verbatim>\<open>IsModified() == false\<close>.
\<close>

theorem UpsertMessageID_keeps_clean:
  "isModified (snd (UpsertMessageID mid r)) = isModified r
   \<and> IsModified (snd (UpsertMessageID mid r)) = IsModified r
   \<and> isModified (SetMessageID mid r)
   \<and> IsModified (SetMessageID mid r)
   \<and> UpsertMessageID mid (Reset r) = (mid, (Reset r)\<lparr>messageID := Some mid\<rparr>)
   \<and> \<not> IsModified (snd (UpsertMessageID mid (Reset r)))
   \<and> UpsertMessageID mid (fst (AcquireMessage choice c (pool_run ops emptyPool)))
       = (mid, (fst (AcquireMessage choice c (pool_run ops emptyPool)))\<lparr>messageID := Some mid\<rparr>)
   \<and> \<not> IsModified (snd (UpsertMessageID mid (fst (AcquireMessage choice c (pool_run ops emptyPool)))))"
proof -
  have a: "isModified (snd (UpsertMessageID mid r)) = isModified r"
    and b: "IsModified (snd (UpsertMessageID mid r)) = IsModified r"
    by (cases "messageID r"; simp add: UpsertMessageID_def IsModified_def)+
  have c: "isModified (SetMessageID mid r)" "IsModified (SetMessageID mid r)"
    by (simp_all add: SetMessageID_def IsModified_def)
  have d: "UpsertMessageID mid (Reset r) = (mid, (Reset r)\<lparr>messageID := Some mid\<rparr>)"
    by (simp add: UpsertMessageID_def Reset_def Let_def)
  have e: "\<not> IsModified (snd (UpsertMessageID mid (Reset r)))"
    unfolding d
    by (simp add: Reset_def Let_def IsModified_def pool_IsModified_def pool_Reset_def
        pool_NewMessage_def)
  let ?m = "fst (AcquireMessage choice c (pool_run ops emptyPool))"
  have f: "UpsertMessageID mid ?m = (mid, ?m\<lparr>messageID := Some mid\<rparr>)"
    using acquire_run_clean [of choice c ops] by (simp add: UpsertMessageID_def)
  have g: "\<not> IsModified (snd (UpsertMessageID mid ?m))"
    unfolding f using acquire_run_clean [of choice c ops] by (simp add: IsModified_def)
  from a b c d e f g show ?thesis by blast
qed

theorem UpsertMessageID_keeps_clean_witness:
  "\<not> IsModified (snd (UpsertMessageID 9 (fst (AcquireMessage None None (pool_run [] emptyPool)))))
   \<and> UpsertMessageID 9 (fst (AcquireMessage None None (pool_run [] emptyPool)))
       = (9, (fst (AcquireMessage None None (pool_run [] emptyPool)))\<lparr>messageID := Some 9\<rparr>)
   \<and> IsModified (SetMessageID 9 (fst (AcquireMessage None None emptyPool)))
   \<and> \<not> IsModified (snd (UpsertMessageID 9 (Reset (SetMessageID 7 (fst (AcquireMessage None None emptyPool))))))"
  using UpsertMessageID_keeps_clean [of 9 "fst (AcquireMessage None None emptyPool)" None None "[]"]
    UpsertMessageID_keeps_clean [of 9 "SetMessageID 7 (fst (AcquireMessage None None emptyPool))"
      None None "[]"]
  by blast

subsection \<open>The bare acknowledgement\<close>

text \<open>
  C5: \<^verbatim>\<open>IsSeparate()\<close> is true exactly when the code is Empty, the token is absent, the
  type is Acknowledgement, the option list is empty and there is no body; a deviation in
  any one of the five makes it false.
\<close>

theorem IsSeparate_iff:
  "IsSeparate r =
     (Code r = codes_Empty \<and> Token r = None \<and> Type r = udp_Acknowledgement
      \<and> Options r = [] \<and> Body r = None)
   \<and> (Code r \<noteq> codes_Empty \<longrightarrow> \<not> IsSeparate r)
   \<and> (Token r \<noteq> None \<longrightarrow> \<not> IsSeparate r)
   \<and> (Type r \<noteq> udp_Acknowledgement \<longrightarrow> \<not> IsSeparate r)
   \<and> (Options r \<noteq> [] \<longrightarrow> \<not> IsSeparate r)
   \<and> (Body r \<noteq> None \<longrightarrow> \<not> IsSeparate r)"
  by (auto simp: IsSeparate_def)

theorem IsSeparate_iff_witness:
  "IsSeparate (SetType udp_Acknowledgement (fst (AcquireMessage None None emptyPool)))
   \<and> \<not> IsSeparate (fst (AcquireMessage None None emptyPool))
   \<and> \<not> IsSeparate ((SetType udp_Acknowledgement (fst (AcquireMessage None None emptyPool)))
         \<lparr>base := pool_NewMessage\<lparr>options := [(11, [1])]\<rparr>\<rparr>)
   \<and> \<not> IsSeparate ((SetType udp_Acknowledgement (fst (AcquireMessage None None emptyPool)))
         \<lparr>base := pool_NewMessage\<lparr>code := 69\<rparr>\<rparr>)
   \<and> \<not> IsSeparate ((SetType udp_Acknowledgement (fst (AcquireMessage None None emptyPool)))
         \<lparr>base := pool_NewMessage\<lparr>token := Some [1, 2]\<rparr>\<rparr>)
   \<and> \<not> IsSeparate ((SetType udp_Acknowledgement (fst (AcquireMessage None None emptyPool)))
         \<lparr>base := pool_NewMessage\<lparr>body := Some []\<rparr>\<rparr>)"
  using IsSeparate_iff [of "SetType udp_Acknowledgement (fst (AcquireMessage None None emptyPool))"]
    IsSeparate_iff [of "fst (AcquireMessage None None emptyPool)"]
    IsSeparate_iff [of "(SetType udp_Acknowledgement (fst (AcquireMessage None None emptyPool)))
         \<lparr>base := pool_NewMessage\<lparr>options := [(11, [1])]\<rparr>\<rparr>"]
    IsSeparate_iff [of "(SetType udp_Acknowledgement (fst (AcquireMessage None None emptyPool)))
         \<lparr>base := pool_NewMessage\<lparr>code := 69\<rparr>\<rparr>"]
    IsSeparate_iff [of "(SetType udp_Acknowledgement (fst (AcquireMessage None None emptyPool)))
         \<lparr>base := pool_NewMessage\<lparr>token := Some [1, 2]\<rparr>\<rparr>"]
    IsSeparate_iff [of "(SetType udp_Acknowledgement (fst (AcquireMessage None None emptyPool)))
         \<lparr>base := pool_NewMessage\<lparr>body := Some []\<rparr>\<rparr>"]
  by (simp add: freshMessage SetType_def Code_def Token_def Type_def Options_def Body_def
      pool_NewMessage_def codes_Empty_def udp_Acknowledgement_def)

section \<open>Properties of the two pools\<close>

subsection \<open>The counter\<close>

lemma AddInt32_small: "- (2 ^ 31) \<le> c + d \<Longrightarrow> c + d < 2 ^ 31 \<Longrightarrow> AddInt32 c d = c + d"
  by (simp add: AddInt32_def)

lemma sync_Get_length:
  "sync_Get choice xs = (Some x, rest) \<Longrightarrow> Suc (length rest) = length xs"
  by (auto simp: sync_Get_def split: option.splits if_splits)

lemma sync_drop_length: "length (sync_drop i xs) \<le> length xs"
  by (simp add: sync_drop_def)

lemma pool_step_inv:
  assumes h: "pool_inv p"
  shows "pool_inv (pool_step x p)"
proof (cases x)
  case (Acquire choice c)
  show ?thesis
  proof (cases "sync_Get choice (messagePool p)")
    case (Pair a rest)
    show ?thesis
    proof (cases a)
      case None
      with Pair Acquire h show ?thesis by (simp add: AcquireMessage_def)
    next
      case (Some r)
      with Pair have l: "Suc (length rest) = length (messagePool p)"
        using sync_Get_length by fastforce
      with h have "1 \<le> currentMessagesInPool p" "currentMessagesInPool p \<le> 10240"
        by (simp_all add: pool_inv_def maxMessagePool_def)
      then have "AddInt32 (currentMessagesInPool p) (- 1) = currentMessagesInPool p - 1"
        using AddInt32_small [of "currentMessagesInPool p" "- 1"] by simp
      with Pair Some Acquire h l show ?thesis
        by (simp add: AcquireMessage_def pool_inv_def)
    qed
  qed
next
  case (Release req)
  show ?thesis
  proof (cases "maxMessagePool \<le> currentMessagesInPool p")
    case True
    with Release h show ?thesis by (simp add: ReleaseMessage_def)
  next
    case False
    with h have "0 \<le> currentMessagesInPool p" "currentMessagesInPool p < 10240"
      by (simp_all add: pool_inv_def maxMessagePool_def)
    then have "AddInt32 (currentMessagesInPool p) 1 = currentMessagesInPool p + 1"
      using AddInt32_small [of "currentMessagesInPool p" 1] by simp
    with False Release h show ?thesis
      by (simp add: ReleaseMessage_def Let_def sync_Put_def pool_inv_def maxMessagePool_def)
  qed
next
  case (Drop i)
  with h show ?thesis
    using sync_drop_length [of i "messagePool p"] by (simp add: pool_inv_def)
qed

lemma pool_run_inv: "pool_inv p \<Longrightarrow> pool_inv (pool_run xs p)"
  by (induction xs arbitrary: p) (simp_all add: pool_step_inv)

lemma pool_run_append: "pool_run (xs @ ys) p = pool_run ys (pool_run xs p)"
  by (induction xs arbitrary: p) simp_all

lemma acquire_step_emptyPool: "snd (AcquireMessage choice c emptyPool) = emptyPool"
  by (cases choice) (simp_all add: AcquireMessage_def sync_Get_def emptyPool_def)

lemma acquire_emptyPool: "pool_run (replicate n (Acquire choice c)) emptyPool = emptyPool"
  by (induction n) (simp_all add: acquire_step_emptyPool)

lemma release_all:
  assumes "currentMessagesInPool p = int (length (messagePool p))"
    and "length (messagePool p) \<le> 10240"
  shows "currentMessagesInPool (pool_run (map Release ms) p)
           = int (min (length (messagePool p) + length ms) 10240)
         \<and> length (messagePool (pool_run (map Release ms) p))
           = min (length (messagePool p) + length ms) 10240"
  using assms
proof (induction ms arbitrary: p)
  case Nil
  then show ?case by simp
next
  case (Cons m ms)
  show ?case
  proof (cases "maxMessagePool \<le> currentMessagesInPool p")
    case True
    then have s: "pool_step (Release m) p = p" by (simp add: ReleaseMessage_def)
    from True Cons.prems have "length (messagePool p) = 10240"
      by (simp add: maxMessagePool_def)
    with Cons.IH [of p] Cons.prems s show ?thesis by simp
  next
    case False
    with Cons.prems have b: "0 \<le> currentMessagesInPool p" "currentMessagesInPool p < 10240"
      by (simp_all add: maxMessagePool_def)
    then have a: "AddInt32 (currentMessagesInPool p) 1 = currentMessagesInPool p + 1"
      using AddInt32_small [of "currentMessagesInPool p" 1] by simp
    let ?q = "pool_step (Release m) p"
    from False a have c: "currentMessagesInPool ?q = currentMessagesInPool p + 1"
      and l: "length (messagePool ?q) = Suc (length (messagePool p))"
      by (simp_all add: ReleaseMessage_def Let_def sync_Put_def)
    from c l Cons.prems b have "currentMessagesInPool ?q = int (length (messagePool ?q))"
      and "length (messagePool ?q) \<le> 10240" by simp_all
    from Cons.IH [OF this] l show ?thesis by simp
  qed
qed

lemma full_pool:
  "currentMessagesInPool (pool_run (map Release (replicate 10240 m)) emptyPool) = 10240"
  using release_all [of emptyPool "replicate 10240 m"] by (simp add: emptyPool_def)

lemma pool_step_inv_tcp:
  assumes h: "pool_inv_tcp p"
  shows "pool_inv_tcp (pool_step_tcp x p)"
proof (cases x)
  case (Acquire_tcp choice c)
  show ?thesis
  proof (cases "sync_Get choice (messagePool_tcp p)")
    case (Pair a rest)
    show ?thesis
    proof (cases a)
      case None
      with Pair Acquire_tcp h show ?thesis by (simp add: AcquireMessage_tcp_def)
    next
      case (Some r)
      with Pair have l: "Suc (length rest) = length (messagePool_tcp p)"
        using sync_Get_length by fastforce
      with h have "1 \<le> currentMessagesInPool_tcp p" "currentMessagesInPool_tcp p \<le> 10240"
        by (simp_all add: pool_inv_tcp_def maxMessagePool_def)
      then have "AddInt32 (currentMessagesInPool_tcp p) (- 1) = currentMessagesInPool_tcp p - 1"
        using AddInt32_small [of "currentMessagesInPool_tcp p" "- 1"] by simp
      with Pair Some Acquire_tcp h l show ?thesis
        by (simp add: AcquireMessage_tcp_def pool_inv_tcp_def)
    qed
  qed
next
  case (Release_tcp req)
  show ?thesis
  proof (cases "maxMessagePool \<le> currentMessagesInPool_tcp p")
    case True
    with Release_tcp h show ?thesis by (simp add: ReleaseMessage_tcp_def)
  next
    case False
    with h have "0 \<le> currentMessagesInPool_tcp p" "currentMessagesInPool_tcp p < 10240"
      by (simp_all add: pool_inv_tcp_def maxMessagePool_def)
    then have "AddInt32 (currentMessagesInPool_tcp p) 1 = currentMessagesInPool_tcp p + 1"
      using AddInt32_small [of "currentMessagesInPool_tcp p" 1] by simp
    with False Release_tcp h show ?thesis
      by (simp add: ReleaseMessage_tcp_def Let_def sync_Put_def pool_inv_tcp_def maxMessagePool_def)
  qed
next
  case (Drop_tcp i)
  with h show ?thesis
    using sync_drop_length [of i "messagePool_tcp p"] by (simp add: pool_inv_tcp_def)
qed

lemma pool_run_inv_tcp: "pool_inv_tcp p \<Longrightarrow> pool_inv_tcp (pool_run_tcp xs p)"
  by (induction xs arbitrary: p) (simp_all add: pool_step_inv_tcp)

lemma pool_run_append_tcp: "pool_run_tcp (xs @ ys) p = pool_run_tcp ys (pool_run_tcp xs p)"
  by (induction xs arbitrary: p) simp_all

lemma acquire_step_emptyPool_tcp: "snd (AcquireMessage_tcp choice c emptyPool_tcp) = emptyPool_tcp"
  by (cases choice) (simp_all add: AcquireMessage_tcp_def sync_Get_def emptyPool_tcp_def)

lemma acquire_emptyPool_tcp: "pool_run_tcp (replicate n (Acquire_tcp choice c)) emptyPool_tcp = emptyPool_tcp"
  by (induction n) (simp_all add: acquire_step_emptyPool_tcp)

lemma release_all_tcp:
  assumes "currentMessagesInPool_tcp p = int (length (messagePool_tcp p))"
    and "length (messagePool_tcp p) \<le> 10240"
  shows "currentMessagesInPool_tcp (pool_run_tcp (map Release_tcp ms) p)
           = int (min (length (messagePool_tcp p) + length ms) 10240)
         \<and> length (messagePool_tcp (pool_run_tcp (map Release_tcp ms) p))
           = min (length (messagePool_tcp p) + length ms) 10240"
  using assms
proof (induction ms arbitrary: p)
  case Nil
  then show ?case by simp
next
  case (Cons m ms)
  show ?case
  proof (cases "maxMessagePool \<le> currentMessagesInPool_tcp p")
    case True
    then have s: "pool_step_tcp (Release_tcp m) p = p" by (simp add: ReleaseMessage_tcp_def)
    from True Cons.prems have "length (messagePool_tcp p) = 10240"
      by (simp add: maxMessagePool_def)
    with Cons.IH [of p] Cons.prems s show ?thesis by simp
  next
    case False
    with Cons.prems have b: "0 \<le> currentMessagesInPool_tcp p" "currentMessagesInPool_tcp p < 10240"
      by (simp_all add: maxMessagePool_def)
    then have a: "AddInt32 (currentMessagesInPool_tcp p) 1 = currentMessagesInPool_tcp p + 1"
      using AddInt32_small [of "currentMessagesInPool_tcp p" 1] by simp
    let ?q = "pool_step_tcp (Release_tcp m) p"
    from False a have c: "currentMessagesInPool_tcp ?q = currentMessagesInPool_tcp p + 1"
      and l: "length (messagePool_tcp ?q) = Suc (length (messagePool_tcp p))"
      by (simp_all add: ReleaseMessage_tcp_def Let_def sync_Put_def)
    from c l Cons.prems b have "currentMessagesInPool_tcp ?q = int (length (messagePool_tcp ?q))"
      and "length (messagePool_tcp ?q) \<le> 10240" by simp_all
    from Cons.IH [OF this] l show ?thesis by simp
  qed
qed

lemma full_pool_tcp:
  "currentMessagesInPool_tcp (pool_run_tcp (map Release_tcp (replicate 10240 m)) emptyPool_tcp) = 10240"
  using release_all_tcp [of emptyPool_tcp "replicate 10240 m"] by (simp add: emptyPool_tcp_def)

text \<open>
  C2: after every sequential run of \<^verbatim>\<open>AcquireMessage\<close> and \<^verbatim>\<open>ReleaseMessage\<close> calls (and
  of drops by \<^verbatim>\<open>sync.Pool\<close>) from the initial state, the counter of live-in-pool messages
  is between 0 and the cap 10240, and the pool holds at most the cap; \<^verbatim>\<open>ReleaseMessage\<close>
  called with the counter at or above the cap leaves counter and pool as they are; and
  acquiring \<open>n\<close> messages from the initial pool and then releasing a list of messages
  retains as many as were released, up to the cap. This holds for the pool of datagram
  messages and for the pool of stream messages.
\<close>

theorem pool_counter_bounded:
  "0 \<le> currentMessagesInPool (pool_run ops emptyPool)
   \<and> currentMessagesInPool (pool_run ops emptyPool) \<le> maxMessagePool
   \<and> int (length (messagePool (pool_run ops emptyPool))) \<le> maxMessagePool
   \<and> (maxMessagePool \<le> currentMessagesInPool p \<longrightarrow> snd (ReleaseMessage req p) = p)
   \<and> length (messagePool (pool_run (replicate n (Acquire choice c) @ map Release ms) emptyPool))
       = min (length ms) (nat maxMessagePool)
   \<and> currentMessagesInPool (pool_run (replicate n (Acquire choice c) @ map Release ms) emptyPool)
       = int (min (length ms) (nat maxMessagePool))
   \<and> 0 \<le> currentMessagesInPool_tcp (pool_run_tcp ops' emptyPool_tcp)
   \<and> currentMessagesInPool_tcp (pool_run_tcp ops' emptyPool_tcp) \<le> maxMessagePool
   \<and> int (length (messagePool_tcp (pool_run_tcp ops' emptyPool_tcp))) \<le> maxMessagePool
   \<and> (maxMessagePool \<le> currentMessagesInPool_tcp p' \<longrightarrow> snd (ReleaseMessage_tcp req' p') = p')
   \<and> length (messagePool_tcp
        (pool_run_tcp (replicate n (Acquire_tcp choice c) @ map Release_tcp ms') emptyPool_tcp))
       = min (length ms') (nat maxMessagePool)
   \<and> currentMessagesInPool_tcp
        (pool_run_tcp (replicate n (Acquire_tcp choice c) @ map Release_tcp ms') emptyPool_tcp)
       = int (min (length ms') (nat maxMessagePool))"
proof -
  have "pool_inv emptyPool" by (simp add: pool_inv_def emptyPool_def maxMessagePool_def)
  then have "pool_inv (pool_run ops emptyPool)" by (rule pool_run_inv)
  then have a: "0 \<le> currentMessagesInPool (pool_run ops emptyPool)"
    and b: "currentMessagesInPool (pool_run ops emptyPool) \<le> maxMessagePool"
    and c: "int (length (messagePool (pool_run ops emptyPool))) \<le> maxMessagePool"
    by (simp_all add: pool_inv_def)
  have d: "maxMessagePool \<le> currentMessagesInPool p \<longrightarrow> snd (ReleaseMessage req p) = p"
    by (simp add: ReleaseMessage_def)
  have e: "pool_run (replicate n (Acquire choice c) @ map Release ms) emptyPool
            = pool_run (map Release ms) emptyPool"
    by (simp add: pool_run_append acquire_emptyPool)
  have f: "currentMessagesInPool (pool_run (map Release ms) emptyPool)
           = int (min (length (messagePool emptyPool) + length ms) 10240)
         \<and> length (messagePool (pool_run (map Release ms) emptyPool))
           = min (length (messagePool emptyPool) + length ms) 10240"
    by (rule release_all) (simp_all add: emptyPool_def)
  have "pool_inv_tcp emptyPool_tcp"
    by (simp add: pool_inv_tcp_def emptyPool_tcp_def maxMessagePool_def)
  then have "pool_inv_tcp (pool_run_tcp ops' emptyPool_tcp)" by (rule pool_run_inv_tcp)
  then have a': "0 \<le> currentMessagesInPool_tcp (pool_run_tcp ops' emptyPool_tcp)"
    and b': "currentMessagesInPool_tcp (pool_run_tcp ops' emptyPool_tcp) \<le> maxMessagePool"
    and c': "int (length (messagePool_tcp (pool_run_tcp ops' emptyPool_tcp))) \<le> maxMessagePool"
    by (simp_all add: pool_inv_tcp_def)
  have d': "maxMessagePool \<le> currentMessagesInPool_tcp p'
            \<longrightarrow> snd (ReleaseMessage_tcp req' p') = p'"
    by (simp add: ReleaseMessage_tcp_def)
  have e': "pool_run_tcp (replicate n (Acquire_tcp choice c) @ map Release_tcp ms') emptyPool_tcp
            = pool_run_tcp (map Release_tcp ms') emptyPool_tcp"
    by (simp add: pool_run_append_tcp acquire_emptyPool_tcp)
  have f': "currentMessagesInPool_tcp (pool_run_tcp (map Release_tcp ms') emptyPool_tcp)
           = int (min (length (messagePool_tcp emptyPool_tcp) + length ms') 10240)
         \<and> length (messagePool_tcp (pool_run_tcp (map Release_tcp ms') emptyPool_tcp))
           = min (length (messagePool_tcp emptyPool_tcp) + length ms') 10240"
    by (rule release_all_tcp) (simp_all add: emptyPool_tcp_def)
  from a b c d e f have udp:
    "0 \<le> currentMessagesInPool (pool_run ops emptyPool)
     \<and> currentMessagesInPool (pool_run ops emptyPool) \<le> maxMessagePool
     \<and> int (length (messagePool (pool_run ops emptyPool))) \<le> maxMessagePool
     \<and> (maxMessagePool \<le> currentMessagesInPool p \<longrightarrow> snd (ReleaseMessage req p) = p)
     \<and> length (messagePool (pool_run (replicate n (Acquire choice c) @ map Release ms) emptyPool))
         = min (length ms) (nat maxMessagePool)
     \<and> currentMessagesInPool (pool_run (replicate n (Acquire choice c) @ map Release ms) emptyPool)
         = int (min (length ms) (nat maxMessagePool))"
    by (simp add: emptyPool_def maxMessagePool_def)
  from a' b' c' d' e' f' have tcp:
    "0 \<le> currentMessagesInPool_tcp (pool_run_tcp ops' emptyPool_tcp)
     \<and> currentMessagesInPool_tcp (pool_run_tcp ops' emptyPool_tcp) \<le> maxMessagePool
     \<and> int (length (messagePool_tcp (pool_run_tcp ops' emptyPool_tcp))) \<le> maxMessagePool
     \<and> (maxMessagePool \<le> currentMessagesInPool_tcp p'
          \<longrightarrow> snd (ReleaseMessage_tcp req' p') = p')
     \<and> length (messagePool_tcp
          (pool_run_tcp (replicate n (Acquire_tcp choice c) @ map Release_tcp ms') emptyPool_tcp))
         = min (length ms') (nat maxMessagePool)
     \<and> currentMessagesInPool_tcp
          (pool_run_tcp (replicate n (Acquire_tcp choice c) @ map Release_tcp ms') emptyPool_tcp)
         = int (min (length ms') (nat maxMessagePool))"
    by (simp add: emptyPool_tcp_def maxMessagePool_def)
  from udp tcp show ?thesis by blast
qed

theorem pool_counter_bounded_witness:
  "maxMessagePool \<le> currentMessagesInPool
      (pool_run (map Release (replicate 10240 (fst (AcquireMessage None None emptyPool)))) emptyPool)
   \<and> snd (ReleaseMessage (fst (AcquireMessage None None emptyPool))
        (pool_run (map Release (replicate 10240 (fst (AcquireMessage None None emptyPool)))) emptyPool))
      = pool_run (map Release (replicate 10240 (fst (AcquireMessage None None emptyPool)))) emptyPool
   \<and> length (messagePool (pool_run (replicate 10241 (Acquire None None)
        @ map Release (replicate 10241 (fst (AcquireMessage None None emptyPool)))) emptyPool))
      = min (length (replicate 10241 (fst (AcquireMessage None None emptyPool)))) (nat maxMessagePool)
   \<and> min (length (replicate 10241 (fst (AcquireMessage None None emptyPool)))) (nat maxMessagePool)
      = 10240
   \<and> maxMessagePool \<le> currentMessagesInPool_tcp
      (pool_run_tcp (map Release_tcp
         (replicate 10240 (fst (AcquireMessage_tcp None None emptyPool_tcp)))) emptyPool_tcp)
   \<and> snd (ReleaseMessage_tcp (fst (AcquireMessage_tcp None None emptyPool_tcp))
        (pool_run_tcp (map Release_tcp
           (replicate 10240 (fst (AcquireMessage_tcp None None emptyPool_tcp)))) emptyPool_tcp))
      = pool_run_tcp (map Release_tcp
          (replicate 10240 (fst (AcquireMessage_tcp None None emptyPool_tcp)))) emptyPool_tcp"
proof -
  let ?m = "fst (AcquireMessage None None emptyPool)"
  let ?p = "pool_run (map Release (replicate 10240 ?m)) emptyPool"
  let ?m' = "fst (AcquireMessage_tcp None None emptyPool_tcp)"
  let ?p' = "pool_run_tcp (map Release_tcp (replicate 10240 ?m')) emptyPool_tcp"
  have h: "maxMessagePool \<le> currentMessagesInPool ?p"
    using full_pool [of ?m] by (simp add: maxMessagePool_def)
  have h': "maxMessagePool \<le> currentMessagesInPool_tcp ?p'"
    using full_pool_tcp [of ?m'] by (simp add: maxMessagePool_def)
  have k: "min (length (replicate 10241 ?m)) (nat maxMessagePool) = 10240"
    by (simp add: maxMessagePool_def)
  from h h' k
    pool_counter_bounded [of "[]" ?p ?m 10241 None None "replicate 10241 ?m" "[]" ?p' ?m' "[]"]
  show ?thesis by blast
qed

subsection \<open>What a release does to the instance\<close>

text \<open>
  C9: \<^verbatim>\<open>ReleaseMessage\<close> called with the counter at or above the cap returns with the
  instance and the pool exactly as they were: the instance is not reset and its context
  is not cleared. Below the cap the instance is reset, its context is cleared, and the
  pool takes it. This holds for both pools.
\<close>

theorem ReleaseMessage_discard_unchanged:
  "(maxMessagePool \<le> currentMessagesInPool p \<longrightarrow> ReleaseMessage req p = (req, p))
   \<and> (currentMessagesInPool p < maxMessagePool \<longrightarrow>
        fst (ReleaseMessage req p) = (Reset req)\<lparr>ctx := None\<rparr>
        \<and> messagePool (snd (ReleaseMessage req p)) = (Reset req)\<lparr>ctx := None\<rparr> # messagePool p)
   \<and> (maxMessagePool \<le> currentMessagesInPool_tcp q \<longrightarrow> ReleaseMessage_tcp req' q = (req', q))
   \<and> (currentMessagesInPool_tcp q < maxMessagePool \<longrightarrow>
        fst (ReleaseMessage_tcp req' q) = (Reset_tcp req')\<lparr>ctx_tcp := None\<rparr>
        \<and> messagePool_tcp (snd (ReleaseMessage_tcp req' q))
            = (Reset_tcp req')\<lparr>ctx_tcp := None\<rparr> # messagePool_tcp q)"
  by (simp add: ReleaseMessage_def ReleaseMessage_tcp_def Let_def sync_Put_def)

theorem ReleaseMessage_discard_unchanged_witness:
  "maxMessagePool \<le> currentMessagesInPool
      (pool_run (map Release (replicate 10240 (fst (AcquireMessage None None emptyPool)))) emptyPool)
   \<and> ReleaseMessage (SetMessageID 7 (fst (AcquireMessage None (Some Background) emptyPool)))
        (pool_run (map Release (replicate 10240 (fst (AcquireMessage None None emptyPool)))) emptyPool)
      = (SetMessageID 7 (fst (AcquireMessage None (Some Background) emptyPool)),
         pool_run (map Release (replicate 10240 (fst (AcquireMessage None None emptyPool)))) emptyPool)
   \<and> currentMessagesInPool emptyPool < maxMessagePool
   \<and> fst (ReleaseMessage (SetMessageID 7 (fst (AcquireMessage None (Some Background) emptyPool)))
        emptyPool)
      = (Reset (SetMessageID 7 (fst (AcquireMessage None (Some Background) emptyPool))))
          \<lparr>ctx := None\<rparr>
   \<and> maxMessagePool \<le> currentMessagesInPool_tcp
      (pool_run_tcp (map Release_tcp
         (replicate 10240 (fst (AcquireMessage_tcp None None emptyPool_tcp)))) emptyPool_tcp)
   \<and> ReleaseMessage_tcp (fst (AcquireMessage_tcp None (Some Background) emptyPool_tcp))
        (pool_run_tcp (map Release_tcp
           (replicate 10240 (fst (AcquireMessage_tcp None None emptyPool_tcp)))) emptyPool_tcp)
      = (fst (AcquireMessage_tcp None (Some Background) emptyPool_tcp),
         pool_run_tcp (map Release_tcp
           (replicate 10240 (fst (AcquireMessage_tcp None None emptyPool_tcp)))) emptyPool_tcp)
   \<and> currentMessagesInPool_tcp emptyPool_tcp < maxMessagePool
   \<and> fst (ReleaseMessage_tcp (fst (AcquireMessage_tcp None (Some Background) emptyPool_tcp))
        emptyPool_tcp)
      = (Reset_tcp (fst (AcquireMessage_tcp None (Some Background) emptyPool_tcp)))
          \<lparr>ctx_tcp := None\<rparr>"
proof -
  let ?m = "fst (AcquireMessage None None emptyPool)"
  let ?p = "pool_run (map Release (replicate 10240 ?m)) emptyPool"
  let ?r = "SetMessageID 7 (fst (AcquireMessage None (Some Background) emptyPool))"
  let ?m' = "fst (AcquireMessage_tcp None None emptyPool_tcp)"
  let ?p' = "pool_run_tcp (map Release_tcp (replicate 10240 ?m')) emptyPool_tcp"
  let ?r' = "fst (AcquireMessage_tcp None (Some Background) emptyPool_tcp)"
  have h: "maxMessagePool \<le> currentMessagesInPool ?p"
    using full_pool [of ?m] by (simp add: maxMessagePool_def)
  have h': "maxMessagePool \<le> currentMessagesInPool_tcp ?p'"
    using full_pool_tcp [of ?m'] by (simp add: maxMessagePool_def)
  have k: "currentMessagesInPool emptyPool < maxMessagePool"
    by (simp add: emptyPool_def maxMessagePool_def)
  have k': "currentMessagesInPool_tcp emptyPool_tcp < maxMessagePool"
    by (simp add: emptyPool_tcp_def maxMessagePool_def)
  from h h' k k'
    ReleaseMessage_discard_unchanged [of ?p ?r ?p' ?r']
    ReleaseMessage_discard_unchanged [of emptyPool ?r emptyPool_tcp ?r']
  show ?thesis by blast
qed

subsection \<open>What \<^verbatim>\<open>Reset\<close> restores\<close>

text \<open>
  C4, as the code has it: after \<^verbatim>\<open>Reset\<close> the embedded container is empty, the message-ID
  is unset, the message type is NonConfirmable (the value 1: not the zero value of the
  type, which is Confirmable), each scratch buffer whose capacity exceeds 2048 is replaced
  by a new buffer of 256 bytes and each smaller one is left as it is, the dirty flag is
  clear, and the context is left as it is. The stream message has no ID and no type; the
  rest holds for it as well.
\<close>

theorem Reset_effect:
  "base (Reset r) = pool_NewMessage
   \<and> messageID (Reset r) = None
   \<and> typ_udp (Reset r) = udp_NonConfirmable
   \<and> udp_NonConfirmable = 1
   \<and> rawData (Reset r) = (if cap (rawData r) > 2048 then make_slice 256 else rawData r)
   \<and> rawMarshalData (Reset r)
       = (if cap (rawMarshalData r) > 2048 then make_slice 256 else rawMarshalData r)
   \<and> cap (make_slice 256) = 256
   \<and> isModified (Reset r) = False
   \<and> ctx (Reset r) = ctx r
   \<and> base_tcp (Reset_tcp t) = pool_NewMessage
   \<and> rawData_tcp (Reset_tcp t)
       = (if cap (rawData_tcp t) > 2048 then make_slice 256 else rawData_tcp t)
   \<and> rawMarshalData_tcp (Reset_tcp t)
       = (if cap (rawMarshalData_tcp t) > 2048 then make_slice 256 else rawMarshalData_tcp t)
   \<and> isModified_tcp (Reset_tcp t) = False
   \<and> ctx_tcp (Reset_tcp t) = ctx_tcp t"
  by (simp add: Reset_def Reset_tcp_def Let_def pool_Reset_def maxMessageBufferSize_def
      make_slice_def udp_NonConfirmable_def)

theorem Reset_effect_witness:
  "rawData (Reset ((SetType udp_Acknowledgement (SetMessageID 7
       (fst (AcquireMessage None None emptyPool))))\<lparr>rawData := make_slice 4096\<rparr>))
     = make_slice 256
   \<and> rawMarshalData (Reset ((SetType udp_Acknowledgement (SetMessageID 7
       (fst (AcquireMessage None None emptyPool))))\<lparr>rawData := make_slice 4096\<rparr>))
     = make_slice 256
   \<and> rawData (Reset ((fst (AcquireMessage None None emptyPool))\<lparr>rawData := make_slice 2048\<rparr>))
     = make_slice 2048
   \<and> typ_udp (Reset ((SetType udp_Acknowledgement (SetMessageID 7
       (fst (AcquireMessage None None emptyPool))))\<lparr>rawData := make_slice 4096\<rparr>)) = 1
   \<and> messageID (Reset ((SetType udp_Acknowledgement (SetMessageID 7
       (fst (AcquireMessage None None emptyPool))))\<lparr>rawData := make_slice 4096\<rparr>)) = None
   \<and> isModified (Reset ((SetType udp_Acknowledgement (SetMessageID 7
       (fst (AcquireMessage None None emptyPool))))\<lparr>rawData := make_slice 4096\<rparr>)) = False
   \<and> rawData_tcp (Reset_tcp ((fst (AcquireMessage_tcp None None emptyPool_tcp))
       \<lparr>rawData_tcp := make_slice 4096\<rparr>)) = make_slice 256"
  using Reset_effect [of "(SetType udp_Acknowledgement (SetMessageID 7
          (fst (AcquireMessage None None emptyPool))))\<lparr>rawData := make_slice 4096\<rparr>"
        "(fst (AcquireMessage_tcp None None emptyPool_tcp))\<lparr>rawData_tcp := make_slice 4096\<rparr>"]
    Reset_effect [of "(fst (AcquireMessage None None emptyPool))\<lparr>rawData := make_slice 2048\<rparr>"
        "fst (AcquireMessage_tcp None None emptyPool_tcp)"]
  by (simp add: freshMessage SetType_def SetMessageID_def make_slice_def)

text \<open>
  The claim as it was stated, with the message type cleared to zero, fails: a message
  fresh from \<^verbatim>\<open>AcquireMessage\<close> has the type 0, and after \<^verbatim>\<open>Reset\<close> its type is not 0.
\<close>

theorem Reset_type_counterexample:
  "Type (fst (AcquireMessage None None emptyPool)) = 0
   \<and> Type (Reset (fst (AcquireMessage None None emptyPool))) \<noteq> 0"
  by (simp add: freshMessage Type_def Reset_def Let_def udp_NonConfirmable_def)

section \<open>Properties of the sessions\<close>

subsection \<open>The read loop and the deferred function\<close>

lemma readLoop_udp_skip:
  "stepOk c cc sz i \<Longrightarrow> readLoop_udp c cc sz i = readLoop_udp c cc sz (Suc i)"
  by (subst readLoop_udp.simps) (auto simp: stepOk_def split: sum.splits)

lemma readLoop_udp_okBefore:
  "okBefore c cc sz k \<Longrightarrow> readLoop_udp c cc sz 0 = readLoop_udp c cc sz k"
  by (induction k) (simp_all add: readLoop_udp_skip)

lemma readLoop_udp_failsAt:
  assumes "failsAt c cc sz k f"
  shows "readLoop_udp c cc sz 0
          = Some (Inr (case f of ReadFailed e \<Rightarrow> e | ProcessFailed e \<Rightarrow> e))"
proof -
  from assms have "readLoop_udp c cc sz 0 = readLoop_udp c cc sz k"
    by (simp add: failsAt_def readLoop_udp_okBefore)
  also from assms have "\<dots> = Some (Inr (case f of ReadFailed e \<Rightarrow> e | ProcessFailed e \<Rightarrow> e))"
    by (subst readLoop_udp.simps) (auto simp: failsAt_def split: failure.splits sum.splits)
  finally show ?thesis .
qed

lemma readLoop_dtls_skip:
  "stepOk c cc sz i \<Longrightarrow> readLoop_dtls c cc sz i = readLoop_dtls c cc sz (Suc i)"
  by (subst readLoop_dtls.simps) (auto simp: stepOk_def split: sum.splits)

lemma readLoop_dtls_okBefore:
  "okBefore c cc sz k \<Longrightarrow> readLoop_dtls c cc sz 0 = readLoop_dtls c cc sz k"
  by (induction k) (simp_all add: readLoop_dtls_skip)

lemma readLoop_dtls_failsAt:
  assumes "failsAt c cc sz k f"
  shows "readLoop_dtls c cc sz 0
          = Some (Inr (case f of ReadFailed e \<Rightarrow> Wrapf ''cannot read from connection: '' e
                        | ProcessFailed e \<Rightarrow> e))"
proof -
  from assms have "readLoop_dtls c cc sz 0 = readLoop_dtls c cc sz k"
    by (simp add: failsAt_def readLoop_dtls_okBefore)
  also from assms have "\<dots> = Some (Inr (case f of ReadFailed e \<Rightarrow> Wrapf ''cannot read from connection: '' e
                        | ProcessFailed e \<Rightarrow> e))"
    by (subst readLoop_dtls.simps) (auto simp: failsAt_def split: failure.splits sum.splits)
  finally show ?thesis .
qed

lemma Run_deferred_udp_Some:
  "Run_deferred_udp (Some e) s w = (Some e, snd (close_udp s (snd (Close_udp s w))))"
  by (simp add: Run_deferred_udp_def Close_udp_def split: prod.splits)

lemma Run_deferred_udp_None:
  "Run_deferred_udp None s w = close_udp s (snd (Close_udp s w))"
  by (simp add: Run_deferred_udp_def Close_udp_def split: prod.splits)

lemma close_dtls_not_done:
  "\<not> done_dtls s \<Longrightarrow> \<exists>r. fst (close_dtls s w) = Inr r"
  by (simp add: close_dtls_def popOnClose_dtls_def Let_def split: prod.splits)

lemma close_dtls_result:
  "\<not> done_dtls s \<Longrightarrow>
   fst (close_dtls s w) = Inr (if closeSocket_dtls s then closeResult (connection_dtls s) else None)"
  by (simp add: close_dtls_def popOnClose_dtls_def Let_def Conn_Close_def split: prod.splits)

lemma Run_deferred_dtls_Some:
  "\<not> done_dtls s \<Longrightarrow>
   Run_deferred_dtls (Some e) s w = (Inr (Some e), snd (close_dtls s (snd (Close_dtls s w))))"
  using close_dtls_result [of s "cancelFunc (cancel_dtls s) w"]
  by (cases "close_dtls s (cancelFunc (cancel_dtls s) w)")
     (auto simp: Run_deferred_dtls_def Close_dtls_def split: prod.splits sum.splits)

lemma Run_deferred_dtls_None:
  "\<not> done_dtls s \<Longrightarrow>
   Run_deferred_dtls None s w = close_dtls s (snd (Close_dtls s w))"
  using close_dtls_result [of s "cancelFunc (cancel_dtls s) w"]
  by (cases "close_dtls s (cancelFunc (cancel_dtls s) w)")
     (auto simp: Run_deferred_dtls_def Close_dtls_def split: prod.splits sum.splits)

lemma callHooks_dtls_effects:
  "callHooks_dtls fs s w = w\<lparr>effects := effects w @ map (\<lambda>f. Hook f (Done_dtls s)) fs\<rparr>"
  by (induction fs arbitrary: w) simp_all

lemma callHooks_udp_effects:
  "callHooks_udp fs s w = w\<lparr>effects := effects w @ map (\<lambda>f. Hook f (Done_udp s w)) fs\<rparr>"
proof (induction fs arbitrary: w)
  case Nil
  then show ?case by simp
next
  case (Cons f fs)
  have "Done_udp s (w\<lparr>effects := effects w @ [Hook f (Done_udp s w)]\<rparr>) = Done_udp s w"
    by (simp add: Done_udp_def)
  with Cons show ?case by simp
qed

lemma close_dtls_spec:
  "\<not> done_dtls s \<Longrightarrow>
   close_dtls s w =
     (Inr (if closeSocket_dtls s then closeResult (connection_dtls s) else None),
      s\<lparr>onClose_dtls := [], done_dtls := True\<rparr>,
      w\<lparr>effects := effects w @ map (\<lambda>f. Hook f False) (onClose_dtls s)
                     @ (if closeSocket_dtls s then [ConnClosed] else [])\<rparr>)"
  by (simp add: close_dtls_def popOnClose_dtls_def Let_def Conn_Close_def callHooks_dtls_effects
      Done_dtls_def)

lemma close_udp_spec:
  "close_udp s w =
     (if closeSocket_udp s then closeResult (connection_udp s) else None,
      s\<lparr>onClose_udp := []\<rparr>,
      w\<lparr>effects := effects w @ map (\<lambda>f. Hook f (Done_udp s w)) (onClose_udp s)
                     @ (if closeSocket_udp s then [ConnClosed] else []),
        cancelled := insert (doneCancel_udp s) (cancelled w)\<rparr>)"
  by (simp add: close_udp_def popOnClose_udp_def Let_def Conn_Close_def callHooks_udp_effects
      Done_udp_def cancelFunc_def)

lemma NewSession_udp_eval:
  "NewSession_udp c conn raddr sz cs dctx w =
     (\<lparr>connection_udp = conn, raddr_udp = raddr, maxMessageSize_udp = sz, closeSocket_udp = cs,
       onClose_udp = [], cancel_udp = ctxCount w, ctx_udp = cancelCtx (ctxCount w) c,
       doneCtx_udp = cancelCtx (Suc (ctxCount w)) (cancelCtx (ctxCount w) c),
       doneCancel_udp = Suc (ctxCount w)\<rparr>,
      w\<lparr>ctxCount := Suc (Suc (ctxCount w))\<rparr>)"
  by (simp add: NewSession_udp_def WithCancel_def)

lemma NewSession_dtls_eval:
  "NewSession_dtls c conn sz cs w =
     (\<lparr>connection_dtls = conn, maxMessageSize_dtls = sz, closeSocket_dtls = cs,
       onClose_dtls = [], cancel_dtls = ctxCount w, ctx_dtls = cancelCtx (ctxCount w) c,
       done_dtls = False\<rparr>,
      w\<lparr>ctxCount := Suc (ctxCount w)\<rparr>)"
  by (simp add: NewSession_dtls_def WithCancel_def)

lemma conn_read_fails_at_0:
  "failsAt conn_read_fails cc sz 0 (ReadFailed (Err ''EOF''))"
  by (simp add: failsAt_def conn_read_fails_def)

lemma Run_udp_failsAt:
  assumes "0 \<le> maxMessageSize_udp s"
    and "failsAt (connection_udp s) cc (maxMessageSize_udp s) k f"
  shows "Run_udp s cc w
        = Some (Inr (Some (case f of ReadFailed e \<Rightarrow> e | ProcessFailed e \<Rightarrow> e)),
                snd (close_udp s (snd (Close_udp s w))))"
  using assms readLoop_udp_failsAt [of "connection_udp s" cc "maxMessageSize_udp s" k f]
  by (simp add: Run_udp_def Run_deferred_udp_Some)

lemma Run_dtls_failsAt:
  assumes "0 \<le> maxMessageSize_dtls s" and "\<not> done_dtls s"
    and "failsAt (connection_dtls s) cc (maxMessageSize_dtls s) k f"
  shows "Run_dtls s cc w
        = Some (Inr (Some (case f of
                             ReadFailed e \<Rightarrow> Wrapf ''cannot read from connection: '' e
                           | ProcessFailed e \<Rightarrow> e)),
                snd (close_dtls s (snd (Close_dtls s w))))"
  using assms readLoop_dtls_failsAt [of "connection_dtls s" cc "maxMessageSize_dtls s" k f]
  by (simp add: Run_dtls_def Run_deferred_dtls_Some)

lemma udp_session_eval:
  "AddOnClose_udp 2 (AddOnClose_udp 1
     (fst (NewSession_udp Background conn_read_fails ''peer'' 1500 True Background world0)))
   = \<lparr>connection_udp = conn_read_fails, raddr_udp = ''peer'', maxMessageSize_udp = 1500,
      closeSocket_udp = True, onClose_udp = [1, 2], cancel_udp = 0,
      ctx_udp = cancelCtx 0 Background,
      doneCtx_udp = cancelCtx (Suc 0) (cancelCtx 0 Background), doneCancel_udp = Suc 0\<rparr>"
  "snd (NewSession_udp Background conn_read_fails ''peer'' 1500 True Background world0)
   = \<lparr>ctxCount = 2, cancelled = {}, effects = []\<rparr>"
  by (simp_all add: NewSession_udp_eval AddOnClose_udp_def world0_def)

lemma dtls_session_eval:
  "AddOnClose_dtls 2 (AddOnClose_dtls 1
     (fst (NewSession_dtls Background conn_read_fails 1500 True world0)))
   = \<lparr>connection_dtls = conn_read_fails, maxMessageSize_dtls = 1500,
      closeSocket_dtls = True, onClose_dtls = [1, 2], cancel_dtls = 0,
      ctx_dtls = cancelCtx 0 Background, done_dtls = False\<rparr>"
  "snd (NewSession_dtls Background conn_read_fails 1500 True world0)
   = \<lparr>ctxCount = 1, cancelled = {}, effects = []\<rparr>"
  by (simp_all add: NewSession_dtls_eval AddOnClose_dtls_def world0_def)

subsection \<open>What \<^verbatim>\<open>Run\<close> returns\<close>

text \<open>
  C7, as the code has it: when the iterations of the read loop before the \<open>k\<close>-th go
  through and the \<open>k\<close>-th fails, by the transport read or by the processor, \<^verbatim>\<open>Run\<close>
  returns, after \<^verbatim>\<open>Close\<close> and \<^verbatim>\<open>close\<close> have run. The UDP session returns the error of
  the read or of the processor itself; the DTLS session (its done channel still open)
  returns the processor's error itself, and the read's error wrapped with the prefix
  \<^verbatim>\<open>cannot read from connection: \<close>. The error of the close sequence never replaces an
  error the body left; the deferred function returns it when the body left none.
\<close>

theorem Run_returns_loop_error:
  "(0 \<le> maxMessageSize_udp s \<and> failsAt (connection_udp s) cc (maxMessageSize_udp s) k f \<longrightarrow>
      Run_udp s cc w
        = Some (Inr (Some (case f of ReadFailed e \<Rightarrow> e | ProcessFailed e \<Rightarrow> e)),
                snd (close_udp s (snd (Close_udp s w)))))
   \<and> (0 \<le> maxMessageSize_dtls s' \<and> \<not> done_dtls s'
        \<and> failsAt (connection_dtls s') cc' (maxMessageSize_dtls s') k' f' \<longrightarrow>
      Run_dtls s' cc' w'
        = Some (Inr (Some (case f' of
                             ReadFailed e \<Rightarrow> Wrapf ''cannot read from connection: '' e
                           | ProcessFailed e \<Rightarrow> e)),
                snd (close_dtls s' (snd (Close_dtls s' w')))))
   \<and> fst (Run_deferred_udp (Some e) s w) = Some e
   \<and> Run_deferred_udp None s w = close_udp s (snd (Close_udp s w))
   \<and> (\<not> done_dtls s' \<longrightarrow>
        fst (Run_deferred_dtls (Some e) s' w') = Inr (Some e)
        \<and> Run_deferred_dtls None s' w' = close_dtls s' (snd (Close_dtls s' w')))"
proof -
  have a: "0 \<le> maxMessageSize_udp s \<and> failsAt (connection_udp s) cc (maxMessageSize_udp s) k f \<longrightarrow>
      Run_udp s cc w
        = Some (Inr (Some (case f of ReadFailed e \<Rightarrow> e | ProcessFailed e \<Rightarrow> e)),
                snd (close_udp s (snd (Close_udp s w))))"
    using Run_udp_failsAt [of s cc k f w] by blast
  have b: "0 \<le> maxMessageSize_dtls s' \<and> \<not> done_dtls s'
        \<and> failsAt (connection_dtls s') cc' (maxMessageSize_dtls s') k' f' \<longrightarrow>
      Run_dtls s' cc' w'
        = Some (Inr (Some (case f' of
                             ReadFailed e \<Rightarrow> Wrapf ''cannot read from connection: '' e
                           | ProcessFailed e \<Rightarrow> e)),
                snd (close_dtls s' (snd (Close_dtls s' w'))))"
    using Run_dtls_failsAt [of s' cc' k' f' w'] by blast
  have c: "fst (Run_deferred_udp (Some e) s w) = Some e"
    by (simp add: Run_deferred_udp_Some)
  have d: "Run_deferred_udp None s w = close_udp s (snd (Close_udp s w))"
    by (rule Run_deferred_udp_None)
  have e: "\<not> done_dtls s' \<longrightarrow>
        fst (Run_deferred_dtls (Some e) s' w') = Inr (Some e)
        \<and> Run_deferred_dtls None s' w' = close_dtls s' (snd (Close_dtls s' w'))"
    by (simp add: Run_deferred_dtls_Some Run_deferred_dtls_None)
  from a b c d e show ?thesis by blast
qed

theorem Run_returns_loop_error_witness:
  "0 \<le> maxMessageSize_udp (fst (NewSession_udp Background conn_reads ''peer'' 1500 True Background world0))
   \<and> failsAt (connection_udp (fst (NewSession_udp Background conn_reads ''peer'' 1500 True Background world0)))
        cc_rejects_second
        (maxMessageSize_udp (fst (NewSession_udp Background conn_reads ''peer'' 1500 True Background world0)))
        1 (ProcessFailed (Err ''bad message''))
   \<and> Run_udp (fst (NewSession_udp Background conn_reads ''peer'' 1500 True Background world0))
        cc_rejects_second
        (snd (NewSession_udp Background conn_reads ''peer'' 1500 True Background world0))
      = Some (Inr (Some (case ProcessFailed (Err ''bad message'') of
                           ReadFailed e \<Rightarrow> e | ProcessFailed e \<Rightarrow> e)),
              snd (close_udp (fst (NewSession_udp Background conn_reads ''peer'' 1500 True Background world0))
                (snd (Close_udp (fst (NewSession_udp Background conn_reads ''peer'' 1500 True Background world0))
                   (snd (NewSession_udp Background conn_reads ''peer'' 1500 True Background world0))))))
   \<and> 0 \<le> maxMessageSize_dtls (fst (NewSession_dtls Background conn_read_fails 1500 True world0))
   \<and> \<not> done_dtls (fst (NewSession_dtls Background conn_read_fails 1500 True world0))
   \<and> failsAt (connection_dtls (fst (NewSession_dtls Background conn_read_fails 1500 True world0)))
        cc_accepts
        (maxMessageSize_dtls (fst (NewSession_dtls Background conn_read_fails 1500 True world0)))
        0 (ReadFailed (Err ''EOF''))
   \<and> Run_dtls (fst (NewSession_dtls Background conn_read_fails 1500 True world0))
        cc_accepts (snd (NewSession_dtls Background conn_read_fails 1500 True world0))
      = Some (Inr (Some (case ReadFailed (Err ''EOF'') of
                           ReadFailed e \<Rightarrow> Wrapf ''cannot read from connection: '' e
                         | ProcessFailed e \<Rightarrow> e)),
              snd (close_dtls (fst (NewSession_dtls Background conn_read_fails 1500 True world0))
                (snd (Close_dtls (fst (NewSession_dtls Background conn_read_fails 1500 True world0))
                   (snd (NewSession_dtls Background conn_read_fails 1500 True world0))))))
   \<and> closeResult (connection_udp
        (fst (NewSession_udp Background conn_reads ''peer'' 1500 True Background world0)))
      = Some (Err ''close failed'')
   \<and> map_option fst
        (Run_udp (fst (NewSession_udp Background conn_reads ''peer'' 1500 True Background world0))
           cc_rejects_second
           (snd (NewSession_udp Background conn_reads ''peer'' 1500 True Background world0)))
      = Some (Inr (Some (Err ''bad message'')))
   \<and> fst (Run_deferred_dtls (Some (Err ''bad message''))
        (fst (NewSession_dtls Background conn_read_fails 1500 True world0))
        (snd (NewSession_dtls Background conn_read_fails 1500 True world0)))
      = Inr (Some (Err ''bad message''))"
proof -
  let ?s = "fst (NewSession_udp Background conn_reads ''peer'' 1500 True Background world0)"
  let ?w = "snd (NewSession_udp Background conn_reads ''peer'' 1500 True Background world0)"
  let ?s' = "fst (NewSession_dtls Background conn_read_fails 1500 True world0)"
  let ?w' = "snd (NewSession_dtls Background conn_read_fails 1500 True world0)"
  note t = Run_returns_loop_error [of ?s cc_rejects_second 1 "ProcessFailed (Err ''bad message'')"
      ?w ?s' cc_accepts 0 "ReadFailed (Err ''EOF'')" ?w' "Err ''bad message''"]
  have a: "0 \<le> maxMessageSize_udp ?s" by (simp add: NewSession_udp_eval)
  have b: "failsAt (connection_udp ?s) cc_rejects_second (maxMessageSize_udp ?s) 1
            (ProcessFailed (Err ''bad message''))"
    by (simp add: NewSession_udp_eval failsAt_def stepOk_def conn_reads_def cc_rejects_second_def)
  have a': "0 \<le> maxMessageSize_dtls ?s'" by (simp add: NewSession_dtls_eval)
  have n': "\<not> done_dtls ?s'" by (simp add: NewSession_dtls_eval)
  have b': "failsAt (connection_dtls ?s') cc_accepts (maxMessageSize_dtls ?s') 0
            (ReadFailed (Err ''EOF''))"
    by (simp add: NewSession_dtls_eval conn_read_fails_at_0)
  have c: "closeResult (connection_udp ?s) = Some (Err ''close failed'')"
    by (simp add: NewSession_udp_eval conn_reads_def)
  from a b t have r: "Run_udp ?s cc_rejects_second ?w
      = Some (Inr (Some (case ProcessFailed (Err ''bad message'') of
                           ReadFailed e \<Rightarrow> e | ProcessFailed e \<Rightarrow> e)),
              snd (close_udp ?s (snd (Close_udp ?s ?w))))"
    by blast
  have d: "map_option fst (Run_udp ?s cc_rejects_second ?w) = Some (Inr (Some (Err ''bad message'')))"
    unfolding r by simp
  from a b a' n' b' c d t show ?thesis by blast
qed

text \<open>
  The claim as it was stated, with \<^verbatim>\<open>Run\<close> returning the error of the read, fails for the
  DTLS session: the transport's read fails with \<open>Err ''EOF''\<close>, and \<^verbatim>\<open>Run\<close> returns another
  value, the wrapped error.
\<close>

theorem Run_dtls_wraps_counterexample:
  "map_option fst
     (Run_dtls (fst (NewSession_dtls Background conn_read_fails 1500 True world0)) cc_accepts
        (snd (NewSession_dtls Background conn_read_fails 1500 True world0)))
     = Some (Inr (Some (Wrapf ''cannot read from connection: '' (Err ''EOF''))))
   \<and> readResults (connection_dtls (fst (NewSession_dtls Background conn_read_fails 1500 True world0))) 0
     = Inl (Err ''EOF'')
   \<and> map_option fst
     (Run_dtls (fst (NewSession_dtls Background conn_read_fails 1500 True world0)) cc_accepts
        (snd (NewSession_dtls Background conn_read_fails 1500 True world0)))
     \<noteq> Some (Inr (Some (Err ''EOF'')))"
proof -
  let ?s' = "fst (NewSession_dtls Background conn_read_fails 1500 True world0)"
  let ?w' = "snd (NewSession_dtls Background conn_read_fails 1500 True world0)"
  have "Run_dtls ?s' cc_accepts ?w'
          = Some (Inr (Some (case ReadFailed (Err ''EOF'') of
                               ReadFailed e \<Rightarrow> Wrapf ''cannot read from connection: '' e
                             | ProcessFailed e \<Rightarrow> e)),
                  snd (close_dtls ?s' (snd (Close_dtls ?s' ?w'))))"
    by (rule Run_dtls_failsAt [where k = 0])
       (simp_all add: NewSession_dtls_eval conn_read_fails_at_0)
  then have c: "map_option fst (Run_dtls ?s' cc_accepts ?w')
            = Some (Inr (Some (Wrapf ''cannot read from connection: '' (Err ''EOF''))))"
    by simp
  have d: "readResults (connection_dtls ?s') 0 = Inl (Err ''EOF'')"
    by (simp add: NewSession_dtls_eval conn_read_fails_def)
  have e: "map_option fst (Run_dtls ?s' cc_accepts ?w') \<noteq> Some (Inr (Some (Err ''EOF'')))"
    unfolding c by simp
  from c d e show ?thesis by blast
qed

subsection \<open>The order of the teardown\<close>

text \<open>
  C6, at a UDP session that owns its transport and has the two close-hooks 1 and 2, run
  until the first read fails: both hooks are called in the order they were added and the
  transport is closed afterwards, but each hook finds the channel of \<^verbatim>\<open>Done()\<close> closed
  already. \<^verbatim>\<open>Close\<close> alone closes that channel, with no hook run: \<^verbatim>\<open>NewSession\<close> derives
  \<^verbatim>\<open>doneCtx\<close> from the session's own context, which \<^verbatim>\<open>Close\<close> cancels. The DTLS session
  with the same hooks and transport calls both hooks with its done channel still open.
\<close>

theorem udp_Done_closed_before_hooks:
  "map_option (effects \<circ> snd \<circ> snd)
     (Run_udp
        (AddOnClose_udp 2 (AddOnClose_udp 1
           (fst (NewSession_udp Background conn_read_fails ''peer'' 1500 True Background world0))))
        cc_accepts
        (snd (NewSession_udp Background conn_read_fails ''peer'' 1500 True Background world0)))
     = Some [Hook 1 True, Hook 2 True, ConnClosed]
   \<and> Done_udp
        (AddOnClose_udp 2 (AddOnClose_udp 1
           (fst (NewSession_udp Background conn_read_fails ''peer'' 1500 True Background world0))))
        (snd (Close_udp
           (AddOnClose_udp 2 (AddOnClose_udp 1
             (fst (NewSession_udp Background conn_read_fails ''peer'' 1500 True Background world0))))
           (snd (NewSession_udp Background conn_read_fails ''peer'' 1500 True Background world0))))
   \<and> map_option (effects \<circ> snd \<circ> snd)
     (Run_dtls
        (AddOnClose_dtls 2 (AddOnClose_dtls 1
           (fst (NewSession_dtls Background conn_read_fails 1500 True world0))))
        cc_accepts
        (snd (NewSession_dtls Background conn_read_fails 1500 True world0)))
     = Some [Hook 1 False, Hook 2 False, ConnClosed]"
proof -
  let ?s = "\<lparr>connection_udp = conn_read_fails, raddr_udp = ''peer'', maxMessageSize_udp = 1500,
      closeSocket_udp = True, onClose_udp = [1, 2], cancel_udp = 0,
      ctx_udp = cancelCtx 0 Background,
      doneCtx_udp = cancelCtx (Suc 0) (cancelCtx 0 Background), doneCancel_udp = Suc 0\<rparr>"
  let ?w = "\<lparr>ctxCount = 2, cancelled = {}, effects = []\<rparr>"
  have "Run_udp ?s cc_accepts ?w
          = Some (Inr (Some (case ReadFailed (Err ''EOF'') of
                               ReadFailed e \<Rightarrow> e | ProcessFailed e \<Rightarrow> e)),
                  snd (close_udp ?s (snd (Close_udp ?s ?w))))"
    by (rule Run_udp_failsAt [where k = 0]) (simp_all add: conn_read_fails_at_0)
  then have a: "map_option (effects \<circ> snd \<circ> snd) (Run_udp ?s cc_accepts ?w)
            = Some [Hook 1 True, Hook 2 True, ConnClosed]"
    by (simp add: close_udp_spec Close_udp_def cancelFunc_def Done_udp_def)
  have b: "Done_udp ?s (snd (Close_udp ?s ?w))"
    by (simp add: Close_udp_def cancelFunc_def Done_udp_def)
  let ?s' = "\<lparr>connection_dtls = conn_read_fails, maxMessageSize_dtls = 1500,
      closeSocket_dtls = True, onClose_dtls = [1, 2], cancel_dtls = 0,
      ctx_dtls = cancelCtx 0 Background, done_dtls = False\<rparr>"
  let ?w' = "\<lparr>ctxCount = 1, cancelled = {}, effects = []\<rparr>"
  have "Run_dtls ?s' cc_accepts ?w'
          = Some (Inr (Some (case ReadFailed (Err ''EOF'') of
                               ReadFailed e \<Rightarrow> Wrapf ''cannot read from connection: '' e
                             | ProcessFailed e \<Rightarrow> e)),
                  snd (close_dtls ?s' (snd (Close_dtls ?s' ?w'))))"
    by (rule Run_dtls_failsAt [where k = 0]) (simp_all add: conn_read_fails_at_0)
  then have c: "map_option (effects \<circ> snd \<circ> snd) (Run_dtls ?s' cc_accepts ?w')
            = Some [Hook 1 False, Hook 2 False, ConnClosed]"
    by (simp add: close_dtls_spec Close_dtls_def cancelFunc_def)
  from a b c show ?thesis unfolding udp_session_eval dtls_session_eval by blast
qed

subsection \<open>The teardown of every session\<close>

lemma fold_AddOnClose_udp:
  "fold AddOnClose_udp hooks s = s\<lparr>onClose_udp := onClose_udp s @ hooks\<rparr>"
  by (induction hooks arbitrary: s) (simp_all add: AddOnClose_udp_def)

lemma fold_AddOnClose_dtls:
  "fold AddOnClose_dtls hooks s = s\<lparr>onClose_dtls := onClose_dtls s @ hooks\<rparr>"
  by (induction hooks arbitrary: s) (simp_all add: AddOnClose_dtls_def)

text \<open>
  The DTLS session: \<^verbatim>\<open>close\<close> on a session whose done channel is open calls the hooks in
  the order they were added, each with the done channel still open, then closes the
  transport if and only if the session owns it, and closes the done channel last. For
  every session made by \<^verbatim>\<open>NewSession\<close> with hooks added, this is what \<^verbatim>\<open>Close\<close> followed by
  \<^verbatim>\<open>close\<close> does.
\<close>

theorem close_dtls_order:
  "(\<not> done_dtls s \<longrightarrow>
     close_dtls s w =
       (Inr (if closeSocket_dtls s then closeResult (connection_dtls s) else None),
        s\<lparr>onClose_dtls := [], done_dtls := True\<rparr>,
        w\<lparr>effects := effects w @ map (\<lambda>f. Hook f False) (onClose_dtls s)
                       @ (if closeSocket_dtls s then [ConnClosed] else [])\<rparr>))
   \<and> effects (snd (snd (close_dtls
         (fold AddOnClose_dtls hooks (fst (NewSession_dtls c conn sz cs w0)))
         (snd (Close_dtls (fold AddOnClose_dtls hooks (fst (NewSession_dtls c conn sz cs w0)))
                (snd (NewSession_dtls c conn sz cs w0)))))))
       = effects w0 @ map (\<lambda>f. Hook f False) hooks @ (if cs then [ConnClosed] else [])
   \<and> Done_dtls (fst (snd (close_dtls
         (fold AddOnClose_dtls hooks (fst (NewSession_dtls c conn sz cs w0)))
         (snd (Close_dtls (fold AddOnClose_dtls hooks (fst (NewSession_dtls c conn sz cs w0)))
                (snd (NewSession_dtls c conn sz cs w0)))))))
   \<and> \<not> Done_dtls (fold AddOnClose_dtls hooks (fst (NewSession_dtls c conn sz cs w0)))"
proof -
  let ?s = "fold AddOnClose_dtls hooks (fst (NewSession_dtls c conn sz cs w0))"
  have nd: "\<not> done_dtls ?s"
    by (simp add: fold_AddOnClose_dtls NewSession_dtls_eval)
  have a: "\<not> done_dtls s \<longrightarrow>
     close_dtls s w =
       (Inr (if closeSocket_dtls s then closeResult (connection_dtls s) else None),
        s\<lparr>onClose_dtls := [], done_dtls := True\<rparr>,
        w\<lparr>effects := effects w @ map (\<lambda>f. Hook f False) (onClose_dtls s)
                       @ (if closeSocket_dtls s then [ConnClosed] else [])\<rparr>)"
    by (simp add: close_dtls_spec)
  show ?thesis
    using nd a
    by (simp add: close_dtls_spec [OF nd] Done_dtls_def)
       (simp add: fold_AddOnClose_dtls NewSession_dtls_eval Close_dtls_def cancelFunc_def)
qed

theorem close_dtls_order_witness:
  "\<not> done_dtls (fold AddOnClose_dtls [1, 2] (fst (NewSession_dtls Background conn_reads 1500 False world0)))
   \<and> close_dtls (fold AddOnClose_dtls [1, 2] (fst (NewSession_dtls Background conn_reads 1500 False world0)))
        world0
      = (Inr None,
         \<lparr>connection_dtls = conn_reads, maxMessageSize_dtls = 1500, closeSocket_dtls = False,
           onClose_dtls = [], cancel_dtls = 0, ctx_dtls = cancelCtx 0 Background,
           done_dtls = True\<rparr>,
         \<lparr>ctxCount = 0, cancelled = {}, effects = [Hook 1 False, Hook 2 False]\<rparr>)"
proof -
  let ?s = "fold AddOnClose_dtls [1, 2] (fst (NewSession_dtls Background conn_reads 1500 False world0))"
  have nd: "\<not> done_dtls ?s"
    by (simp add: NewSession_dtls_eval AddOnClose_dtls_def)
  from nd close_dtls_order [of ?s world0 "[]" Background conn_reads 1500 False world0]
  have "close_dtls ?s world0 =
       (Inr (if closeSocket_dtls ?s then closeResult (connection_dtls ?s) else None),
        ?s\<lparr>onClose_dtls := [], done_dtls := True\<rparr>,
        world0\<lparr>effects := effects world0 @ map (\<lambda>f. Hook f False) (onClose_dtls ?s)
                       @ (if closeSocket_dtls ?s then [ConnClosed] else [])\<rparr>)"
    by blast
  then have "close_dtls ?s world0
      = (Inr None,
         \<lparr>connection_dtls = conn_reads, maxMessageSize_dtls = 1500, closeSocket_dtls = False,
           onClose_dtls = [], cancel_dtls = 0, ctx_dtls = cancelCtx 0 Background,
           done_dtls = True\<rparr>,
         \<lparr>ctxCount = 0, cancelled = {}, effects = [Hook 1 False, Hook 2 False]\<rparr>)"
    by (simp add: NewSession_dtls_eval AddOnClose_dtls_def world0_def)
  with nd show ?thesis by blast
qed

text \<open>
  The UDP session: for every session made by \<^verbatim>\<open>NewSession\<close> with hooks added, \<^verbatim>\<open>Close\<close>
  alone closes the channel of \<^verbatim>\<open>Done()\<close> and runs no hook; \<^verbatim>\<open>close\<close> after it calls the
  hooks in the order they were added, each with that channel closed already, and then
  closes the transport if and only if the session owns it.
\<close>

theorem close_udp_Done_early:
  "Done_udp (fold AddOnClose_udp hooks (fst (NewSession_udp c conn raddr sz cs dctx w0)))
     (snd (Close_udp (fold AddOnClose_udp hooks (fst (NewSession_udp c conn raddr sz cs dctx w0)))
        (snd (NewSession_udp c conn raddr sz cs dctx w0))))
   \<and> effects (snd (Close_udp (fold AddOnClose_udp hooks (fst (NewSession_udp c conn raddr sz cs dctx w0)))
        (snd (NewSession_udp c conn raddr sz cs dctx w0)))) = effects w0
   \<and> effects (snd (snd (close_udp
         (fold AddOnClose_udp hooks (fst (NewSession_udp c conn raddr sz cs dctx w0)))
         (snd (Close_udp (fold AddOnClose_udp hooks (fst (NewSession_udp c conn raddr sz cs dctx w0)))
                (snd (NewSession_udp c conn raddr sz cs dctx w0)))))))
       = effects w0 @ map (\<lambda>f. Hook f True) hooks @ (if cs then [ConnClosed] else [])"
  by (simp add: close_udp_spec)
     (simp add: fold_AddOnClose_udp NewSession_udp_eval Close_udp_def cancelFunc_def Done_udp_def)

text \<open>
  \<^verbatim>\<open>popOnClose\<close> returns the hooks and leaves none: a second call returns the empty list,
  and a second \<^verbatim>\<open>close\<close> of the UDP session calls no hook again.
\<close>

theorem popOnClose_drains:
  "fst (popOnClose_dtls s) = onClose_dtls s
   \<and> fst (popOnClose_dtls (snd (popOnClose_dtls s))) = []
   \<and> fst (popOnClose_udp u) = onClose_udp u
   \<and> fst (popOnClose_udp (snd (popOnClose_udp u))) = []
   \<and> effects (snd (snd (close_udp (fst (snd (close_udp u w))) (snd (snd (close_udp u w))))))
      = effects (snd (snd (close_udp u w))) @ (if closeSocket_udp u then [ConnClosed] else [])"
  by (simp add: popOnClose_dtls_def popOnClose_udp_def Let_def close_udp_spec)

end
